theory Spec2Isabelle
  imports Main "HOL-Library.Word" "HOL-Library.List_Lexorder" "HOL-Library.Char_ord"
begin

unbundle bit_operations_syntax

section \<open>The cached transactional gatherer of prometheus/cache/cache.go\<close>

text \<open>
  The gatherer keeps two Go maps of pointers: \<open>metrics\<close>, from the 64-bit hash of a key
  to a \<open>*dto.Metric\<close>, and \<open>metricFamilyByName\<close>, from a name to a
  \<open>*dto.MetricFamily\<close>, whose \<open>Metric\<close> slice holds pointers to the same metric
  records. \<open>Update\<close> mutates the records through these pointers and, under \<open>reset\<close>,
  works on two freshly made maps while it still reads the old ones. What a caller sees
  afterwards depends on this sharing, so the model has an explicit memory: records and
  map objects live at addresses, and the gatherer's fields hold addresses.

  The reader-writer lock \<open>mMu\<close> is not modelled: \<open>Update\<close> holds it exclusively from
  its first to its last statement, so one call is one sequential run.
\<close>

subsection \<open>Basic types\<close>

type_synonym uint64 = "64 word"
type_synonym int64 = "64 word"
type_synonym addr = nat

text \<open>
  A \<open>float64\<close> is only stored and handed on by this file, never computed with; it is kept
  as its 64 bits.
\<close>

type_synonym float64 = "64 word"

text \<open>
  \<open>prometheus.ValueType\<close> is an \<open>int\<close> with the constants \<open>CounterValue\<close>,
  \<open>GaugeValue\<close> and \<open>UntypedValue\<close> numbered from 1 (\<open>iota\<close> after a blank first
  entry). The declaration is outside this file; any other integer is a value of the type
  as well.
\<close>

type_synonym ValueType = int

definition CounterValue :: ValueType where
  "CounterValue = 1"

definition GaugeValue :: ValueType where
  "GaugeValue = 2"

definition UntypedValue :: ValueType where
  "UntypedValue = 3"

datatype MetricType = COUNTER | GAUGE | SUMMARY | UNTYPED | HISTOGRAM

text \<open>
  Modelled from the spec: \<open>ValueType.ToDTO\<close> of the prometheus package, which is not
  part of this file. The family's kind is set to the insert's kind, one of Counter, Gauge
  and Untyped; a value outside the three has no kind (a nil pointer).
\<close>

definition ToDTO :: "ValueType \<Rightarrow> MetricType option" where
  "ToDTO v =
     (if v = CounterValue then Some COUNTER
      else if v = GaugeValue then Some GAUGE
      else if v = UntypedValue then Some UNTYPED
      else None)"

text \<open>
  Of a \<open>time.Time\<close> the code reads \<open>Unix()\<close>, an \<open>int64\<close>, and \<open>Nanosecond()\<close>,
  an \<open>int\<close> between 0 and 999999999.
\<close>

record Time =
  Unix :: int64
  Nanosecond :: nat

subsection \<open>Key and Insert\<close>

record Key =
  FQName :: string
  LabelNames :: "string list"
  LabelValues :: "string list"

record Insert = Key +
  Help :: string
  ValueType :: ValueType
  Value :: float64
  Timestamp :: "Time option"

datatype error =
    ErrFQNameEmpty
  | ErrLabelLength
  | ErrUnsupportedValueType ValueType
  | ErrNoMetricFamily string "string list"
  | ErrNoSuchMetric string "string list"
  | MultiError "error list"

definition isValid :: "'a Key_scheme \<Rightarrow> error option" where
  "isValid k =
     (if FQName k = [] then Some ErrFQNameEmpty
      else if length (LabelNames k) \<noteq> length (LabelValues k) then Some ErrLabelLength
      else None)"

text \<open>\<open>model.SeparatorByte\<close> is the byte 255.\<close>

definition separatorByte :: char where
  "separatorByte = char_of (255 :: nat)"

text \<open>
  The loop of \<open>hash\<close> runs over the indices of \<open>LabelNames\<close> and reads
  \<open>LabelValues\<close> at the same index: with fewer values than names the read is out of
  range and Go panics, which is \<open>None\<close> here. Values beyond the names are not read.
\<close>

fun writeLabels :: "string list \<Rightarrow> string list \<Rightarrow> string option" where
  "writeLabels [] vs = Some []"
| "writeLabels (n # ns) [] = None"
| "writeLabels (n # ns) (v # vs) =
     map_option (\<lambda>rest. n @ [separatorByte] @ v @ [separatorByte] @ rest) (writeLabels ns vs)"

text \<open>
  \<open>xxhash.New\<close>, the writes and \<open>Sum64\<close> compute the digest of the concatenation of
  everything written. The digest belongs to the imported xxhash package and is the
  parameter \<open>sum64\<close>; the instance \<open>Sum64\<close> below is the algorithm itself.
\<close>

definition hash :: "(string \<Rightarrow> uint64) \<Rightarrow> 'a Key_scheme \<Rightarrow> uint64 option" where
  "hash sum64 k =
     map_option (\<lambda>ls. sum64 (FQName k @ [separatorByte] @ ls))
       (writeLabels (LabelNames k) (LabelValues k))"

subsection \<open>The digest: XXH64 with seed 0\<close>

text \<open>
  \<open>github.com/cespare/xxhash/v2\<close> implements the XXH64 algorithm with seed 0. Input
  of 32 bytes or more is consumed in stripes of 32 bytes by four accumulators, which are
  then merged; the remaining bytes are mixed in 8, 4 and 1 at a time; a final avalanche
  follows. Bytes are read little-endian.
\<close>

definition prime1 :: uint64 where
  "prime1 = 11400714785074694791"

definition prime2 :: uint64 where
  "prime2 = 14029467366897019727"

definition prime3 :: uint64 where
  "prime3 = 1609587929392839161"

definition prime4 :: uint64 where
  "prime4 = 9650029242287828579"

definition prime5 :: uint64 where
  "prime5 = 2870177450012600261"

definition rol :: "nat \<Rightarrow> uint64 \<Rightarrow> uint64" where
  "rol r x = push_bit r x OR drop_bit (64 - r) x"

fun le_uint :: "string \<Rightarrow> uint64" where
  "le_uint [] = 0"
| "le_uint (b # bs) = of_char b + 256 * le_uint bs"

definition round64 :: "uint64 \<Rightarrow> uint64 \<Rightarrow> uint64" where
  "round64 acc inp = rol 31 (acc + inp * prime2) * prime1"

definition mergeRound :: "uint64 \<Rightarrow> uint64 \<Rightarrow> uint64" where
  "mergeRound acc val = (acc XOR round64 0 val) * prime1 + prime4"

function stripes :: "uint64 \<times> uint64 \<times> uint64 \<times> uint64 \<Rightarrow> string \<Rightarrow> (uint64 \<times> uint64 \<times> uint64 \<times> uint64) \<times> string" where
  "stripes (v1, v2, v3, v4) bs =
     (if length bs < 32 then ((v1, v2, v3, v4), bs)
      else stripes (round64 v1 (le_uint (take 8 bs)),
                    round64 v2 (le_uint (take 8 (drop 8 bs))),
                    round64 v3 (le_uint (take 8 (drop 16 bs))),
                    round64 v4 (le_uint (take 8 (drop 24 bs)))) (drop 32 bs))"
  by pat_completeness auto
termination
  by (relation "measure (\<lambda>(v, bs). length bs)") auto

function tail64 :: "uint64 \<Rightarrow> string \<Rightarrow> uint64" where
  "tail64 h bs =
     (if 8 \<le> length bs then
        tail64 (rol 27 (h XOR round64 0 (le_uint (take 8 bs))) * prime1 + prime4) (drop 8 bs)
      else if 4 \<le> length bs then
        tail64 (rol 23 (h XOR le_uint (take 4 bs) * prime1) * prime2 + prime3) (drop 4 bs)
      else if 1 \<le> length bs then
        tail64 (rol 11 (h XOR le_uint (take 1 bs) * prime5) * prime1) (drop 1 bs)
      else h)"
  by pat_completeness auto
termination
  by (relation "measure (\<lambda>(h, bs). length bs)") auto

definition avalanche :: "uint64 \<Rightarrow> uint64" where
  "avalanche h0 =
     (let h1 = (h0 XOR drop_bit 33 h0) * prime2;
          h2 = (h1 XOR drop_bit 29 h1) * prime3
      in h2 XOR drop_bit 32 h2)"

definition Sum64 :: "string \<Rightarrow> uint64" where
  "Sum64 bs =
     (let n = of_nat (length bs) in
      if length bs < 32 then avalanche (tail64 (prime5 + n) bs)
      else
        (case stripes (prime1 + prime2, prime2, 0, 0 - prime1) bs of
           ((v1, v2, v3, v4), rest) \<Rightarrow>
             let h = rol 1 v1 + rol 7 v2 + rol 12 v3 + rol 18 v4;
                 h = mergeRound h v1; h = mergeRound h v2;
                 h = mergeRound h v3; h = mergeRound h v4
             in avalanche (tail64 (h + n) rest)))"

subsection \<open>The stored records\<close>

text \<open>
  \<open>dto.Metric\<close>: the label pairs, the three value arms (a nil pointer is \<open>None\<close>) and
  the optional timestamp. \<open>dto.MetricFamily\<close>: name, help, kind and the slice of member
  pointers. The zero value of either has every field nil.
\<close>

record Metric =
  Label :: "(string \<times> string) list"
  Gauge :: "float64 option"
  Counter :: "float64 option"
  Untyped :: "float64 option"
  TimestampMs :: "int64 option"

record MetricFamily =
  Name :: "string option"
  Help' :: "string option"
  Type :: "MetricType option"
  Metric :: "addr list"

definition zeroMetric :: Metric where
  "zeroMetric = \<lparr>Label = [], Gauge = None, Counter = None, Untyped = None, TimestampMs = None\<rparr>"

definition zeroMetricFamily :: MetricFamily where
  "zeroMetricFamily = \<lparr>Name = None, Help' = None, Type = None, Metric = []\<rparr>"

subsection \<open>Memory, the gatherer and the locals of Update\<close>

text \<open>
  Four kinds of objects live in memory, each kind in a component of its own, with one
  allocation counter for all: metric records, family records, and the two kinds of map
  objects. A Go map variable is a reference to a map object: two variables assigned from
  one another name the same object. An address that has not been allocated holds a zero
  value, which nothing reads.

  A slice is kept as the list of its elements. \<open>mf.Metric[:0]\<close> and the appends reuse
  the backing array of the family's own slice; no other record shares it, so the list in
  the family record is all there is to it.
\<close>

record memory =
  metricAt :: "addr \<Rightarrow> Metric"
  familyAt :: "addr \<Rightarrow> MetricFamily"
  metricMapAt :: "addr \<Rightarrow> (uint64 \<rightharpoonup> addr)"
  familyMapAt :: "addr \<Rightarrow> (string \<rightharpoonup> addr)"
  nextAddr :: addr

text \<open>
  The gatherer: its two fields, each a reference to a map object, together with the
  memory they point into. A \<open>frame\<close> is a gatherer inside a call of \<open>Update\<close>,
  with the three local variables of the call.
\<close>

record CachedTGatherer = memory +
  metrics :: addr
  metricFamilyByName :: addr

record frame = CachedTGatherer +
  currMetrics :: addr
  currMetricFamilies :: addr
  errs :: "error list"

text \<open>\<open>NewCachedTGatherer\<close> makes the two maps, here at the addresses 0 and 1.\<close>

definition NewCachedTGatherer :: CachedTGatherer where
  "NewCachedTGatherer =
     \<lparr>metricAt = (\<lambda>_. zeroMetric), familyAt = (\<lambda>_. zeroMetricFamily),
      metricMapAt = (\<lambda>_. Map.empty), familyMapAt = (\<lambda>_. Map.empty), nextAddr = 2,
      metrics = 0, metricFamilyByName = 1\<rparr>"

text \<open>Writing through a pointer, and storing into a map object.\<close>

definition setFamily :: "addr \<Rightarrow> (MetricFamily \<Rightarrow> MetricFamily) \<Rightarrow> 'a memory_scheme \<Rightarrow> 'a memory_scheme" where
  "setFamily a f s = s\<lparr>familyAt := (familyAt s)(a := f (familyAt s a))\<rparr>"

definition setMetric :: "addr \<Rightarrow> (Metric \<Rightarrow> Metric) \<Rightarrow> 'a memory_scheme \<Rightarrow> 'a memory_scheme" where
  "setMetric a f s = s\<lparr>metricAt := (metricAt s)(a := f (metricAt s a))\<rparr>"

definition setFamilyMap :: "addr \<Rightarrow> ((string \<rightharpoonup> addr) \<Rightarrow> (string \<rightharpoonup> addr)) \<Rightarrow> 'a memory_scheme \<Rightarrow> 'a memory_scheme" where
  "setFamilyMap a f s = s\<lparr>familyMapAt := (familyMapAt s)(a := f (familyMapAt s a))\<rparr>"

definition setMetricMap :: "addr \<Rightarrow> ((uint64 \<rightharpoonup> addr) \<Rightarrow> (uint64 \<rightharpoonup> addr)) \<Rightarrow> 'a memory_scheme \<Rightarrow> 'a memory_scheme" where
  "setMetricMap a f s = s\<lparr>metricMapAt := (metricMapAt s)(a := f (metricMapAt s a))\<rparr>"

text \<open>
  Allocation takes the next address. \<open>newFamily\<close> is
  \<open>mf = &dto.MetricFamily{}; mf.Name = &inserts[i].FQName\<close>; \<open>newMetric\<close> is the
  \<open>&dto.Metric{...}\<close> with its label pairs; the two \<open>make\<close> calls give empty maps.
\<close>

definition newFamily :: "string \<Rightarrow> 'a memory_scheme \<Rightarrow> addr \<times> 'a memory_scheme" where
  "newFamily n s =
     (nextAddr s,
      s\<lparr>familyAt := (familyAt s)(nextAddr s := zeroMetricFamily\<lparr>Name := Some n\<rparr>),
        nextAddr := Suc (nextAddr s)\<rparr>)"

definition newMetric :: "(string \<times> string) list \<Rightarrow> 'a memory_scheme \<Rightarrow> addr \<times> 'a memory_scheme" where
  "newMetric ls s =
     (nextAddr s,
      s\<lparr>metricAt := (metricAt s)(nextAddr s := zeroMetric\<lparr>Label := ls\<rparr>),
        nextAddr := Suc (nextAddr s)\<rparr>)"

definition makeMetricMap :: "'a memory_scheme \<Rightarrow> addr \<times> 'a memory_scheme" where
  "makeMetricMap s =
     (nextAddr s,
      s\<lparr>metricMapAt := (metricMapAt s)(nextAddr s := Map.empty), nextAddr := Suc (nextAddr s)\<rparr>)"

definition makeFamilyMap :: "'a memory_scheme \<Rightarrow> addr \<times> 'a memory_scheme" where
  "makeFamilyMap s =
     (nextAddr s,
      s\<lparr>familyMapAt := (familyMapAt s)(nextAddr s := Map.empty), nextAddr := Suc (nextAddr s)\<rparr>)"

subsection \<open>Update\<close>

text \<open>
  One pass of a loop body ends in \<open>continue\<close> (or falls through to the next round), in
  the \<open>return\<close> of line 198, or in a panic.
\<close>

datatype 'a step = Continue 'a | Return error 'a | Panic 'a

text \<open>
  Modelled from the spec: \<open>internal.LabelPairSorter\<close>, which is not part of this file.
  The label pairs of a new metric are sorted by label name.
\<close>

definition sortedLabelPairs :: "'a Key_scheme \<Rightarrow> (string \<times> string) list" where
  "sortedLabelPairs k = sort_key fst (zip (LabelNames k) (LabelValues k))"

text \<open>
  The \<open>switch\<close> on the value type: the arm of the kind holds the value, the other two
  are nil; \<open>None\<close> is the \<open>default\<close> branch.
\<close>

definition setValue :: "ValueType \<Rightarrow> float64 \<Rightarrow> Metric \<Rightarrow> Metric option" where
  "setValue t v m =
     (if t = CounterValue then Some (m\<lparr>Counter := Some v, Gauge := None, Untyped := None\<rparr>)
      else if t = GaugeValue then Some (m\<lparr>Counter := None, Gauge := Some v, Untyped := None\<rparr>)
      else if t = UntypedValue then Some (m\<lparr>Counter := None, Gauge := None, Untyped := Some v\<rparr>)
      else None)"

definition timestampMs :: "Time \<Rightarrow> int64" where
  "timestampMs t = Unix t * 1000 + of_nat (Nanosecond t div 1000000)"

text \<open>
  The body of the first loop, lines 135 to 214, in its three parts. The two lookups read
  the maps of the gatherer, \<open>c.metricFamilyByName\<close> and \<open>c.metrics\<close>; the two
  stores write the working maps \<open>currMetricFamilies\<close> and \<open>currMetrics\<close>.

  Lines 141 to 153: the family record for the insert's name, looked up or made, with its
  slice cut to length 0 under \<open>reset\<close> when it was found, then kind and help set and the
  pointer stored in the working map.
\<close>

definition updateFamily :: "bool \<Rightarrow> Insert \<Rightarrow> frame \<Rightarrow> addr \<times> frame" where
  "updateFamily reset ins w =
     (let (mf, w1) =
            (case familyMapAt w (metricFamilyByName w) (FQName ins) of
               None \<Rightarrow> newFamily (FQName ins) w
             | Some mf \<Rightarrow> (mf, if reset then setFamily mf (\<lambda>f. f\<lparr>Metric := []\<rparr>) w else w));
          w2 = setFamily mf (\<lambda>f. f\<lparr>Type := ToDTO (ValueType ins), Help' := Some (Help ins)\<rparr>) w1
      in (mf, setFamilyMap (currMetricFamilies w2) (\<lambda>fm. fm(FQName ins \<mapsto> mf)) w2))"

text \<open>
  Lines 157 to 167: the metric record for the hash, looked up or made with its sorted
  label pairs; the flag is the \<open>ok\<close> of the lookup.
\<close>

definition metricPointer :: "uint64 \<Rightarrow> Insert \<Rightarrow> frame \<Rightarrow> addr \<times> bool \<times> frame" where
  "metricPointer hSum ins w =
     (case metricMapAt w (metrics w) hSum of
        None \<Rightarrow> (let (m, w') = newMetric (sortedLabelPairs ins) w in (m, False, w'))
      | Some m \<Rightarrow> (m, True, w))"

text \<open>
  Lines 201 to 214, after the \<open>switch\<close> has given the metric its value \<open>v\<close>: the
  timestamp, the store into the working map, and the append to the family's slice unless
  this is an update without reset of a metric that was found.
\<close>

definition storeMetric :: "bool \<Rightarrow> Insert \<Rightarrow> addr \<Rightarrow> addr \<Rightarrow> bool \<Rightarrow> uint64 \<Rightarrow> Metric \<Rightarrow> frame \<Rightarrow> frame" where
  "storeMetric reset ins mf m ok hSum v w =
     (let w1 = setMetric m (\<lambda>_. v\<lparr>TimestampMs := map_option timestampMs (Timestamp ins)\<rparr>) w;
          w2 = setMetricMap (currMetrics w1) (\<lambda>mm. mm(hSum \<mapsto> m)) w1
      in if \<not> reset \<and> ok then w2
         else setFamily mf (\<lambda>f. f\<lparr>Metric := Metric f @ [m]\<rparr>) w2)"

definition insertOne :: "(string \<Rightarrow> uint64) \<Rightarrow> bool \<Rightarrow> Insert \<Rightarrow> frame \<Rightarrow> frame step" where
  "insertOne sum64 reset ins w =
     (case isValid ins of
        Some err \<Rightarrow> Continue (w\<lparr>errs := errs w @ [err]\<rparr>)
      | None \<Rightarrow>
          (case updateFamily reset ins w of
             (mf, w1) \<Rightarrow>
               (case hash sum64 ins of
                  None \<Rightarrow> Panic w1
                | Some hSum \<Rightarrow>
                    (case metricPointer hSum ins w1 of
                       (m, ok, w2) \<Rightarrow>
                         (case setValue (ValueType ins) (Value ins) (metricAt w2 m) of
                            None \<Rightarrow> Return (ErrUnsupportedValueType (ValueType ins)) w2
                          | Some v \<Rightarrow> Continue (storeMetric reset ins mf m ok hSum v w2))))))"

fun insertLoop :: "(string \<Rightarrow> uint64) \<Rightarrow> bool \<Rightarrow> Insert list \<Rightarrow> frame \<Rightarrow> frame step" where
  "insertLoop sum64 reset [] w = Continue w"
| "insertLoop sum64 reset (ins # rest) w =
     (case insertOne sum64 reset ins w of
        Continue w' \<Rightarrow> insertLoop sum64 reset rest w'
      | Return e w' \<Rightarrow> Return e w'
      | Panic w' \<Rightarrow> Panic w')"

text \<open>
  The search of lines 237 to 243: the first index at which the family's slice holds the
  pointer \<open>m\<close>; \<open>None\<close> is \<open>toDel == -1\<close>.
\<close>

fun indexOf :: "addr \<Rightarrow> addr list \<Rightarrow> nat option" where
  "indexOf m [] = None"
| "indexOf m (x # xs) = (if x = m then Some 0 else map_option Suc (indexOf m xs))"

text \<open>The body of the second loop, lines 218 to 255.\<close>

definition deleteOne :: "(string \<Rightarrow> uint64) \<Rightarrow> Key \<Rightarrow> frame \<Rightarrow> frame step" where
  "deleteOne sum64 del w =
     (case isValid del of
        Some err \<Rightarrow> Continue (w\<lparr>errs := errs w @ [err]\<rparr>)
      | None \<Rightarrow>
          (case hash sum64 del of
             None \<Rightarrow> Panic w
           | Some hSum \<Rightarrow>
               (case metricMapAt w (currMetrics w) hSum of
                  None \<Rightarrow> Continue w
                | Some m \<Rightarrow>
                    let w1 = setMetricMap (currMetrics w) (\<lambda>mm. mm(hSum := None)) w in
                      (case familyMapAt w1 (currMetricFamilies w1) (FQName del) of
                         None \<Rightarrow>
                           Continue (w1\<lparr>errs := errs w1 @ [ErrNoMetricFamily (FQName del) (LabelValues del)]\<rparr>)
                       | Some mf \<Rightarrow>
                           (case indexOf m (Metric (familyAt w1 mf)) of
                              None \<Rightarrow>
                                Continue (w1\<lparr>errs := errs w1 @ [ErrNoSuchMetric (FQName del) (LabelValues del)]\<rparr>)
                            | Some toDel \<Rightarrow>
                                if length (Metric (familyAt w1 mf)) = 1
                                then Continue (setFamilyMap (currMetricFamilies w1) (\<lambda>fm. fm(FQName del := None)) w1)
                                else Continue (setFamily mf
                                       (\<lambda>f. f\<lparr>Metric := take toDel (Metric f) @ drop (Suc toDel) (Metric f)\<rparr>) w1))))))"

fun deleteLoop :: "(string \<Rightarrow> uint64) \<Rightarrow> Key list \<Rightarrow> frame \<Rightarrow> frame step" where
  "deleteLoop sum64 [] w = Continue w"
| "deleteLoop sum64 (del # rest) w =
     (case deleteOne sum64 del w of
        Continue w' \<Rightarrow> deleteLoop sum64 rest w'
      | Return e w' \<Rightarrow> Return e w'
      | Panic w' \<Rightarrow> Panic w')"

text \<open>
  Modelled from the spec: \<open>MultiError.MaybeUnwrap\<close> of the prometheus package, which is
  not part of this file. All soft errors of one call are combined into one returned
  aggregate error, nil when there is none.
\<close>

definition MaybeUnwrap :: "error list \<Rightarrow> error option" where
  "MaybeUnwrap es = (if es = [] then None else Some (MultiError es))"

text \<open>
  Lines 126 to 133: the locals at the start of the loops. Without \<open>reset\<close> the working
  maps are the gatherer's own map objects; with it they are two new ones.
\<close>

definition enter :: "bool \<Rightarrow> CachedTGatherer \<Rightarrow> frame" where
  "enter reset c =
     (let w0 = CachedTGatherer.extend c
                 \<lparr>currMetrics = metrics c, currMetricFamilies = metricFamilyByName c, errs = []\<rparr>
      in if reset then
           (let (a, w1) = makeMetricMap w0;
                (b, w2) = makeFamilyMap w1
            in w2\<lparr>currMetrics := a, currMetricFamilies := b\<rparr>)
         else w0)"

text \<open>The two loops, one after the other.\<close>

definition runLoops :: "(string \<Rightarrow> uint64) \<Rightarrow> bool \<Rightarrow> Insert list \<Rightarrow> Key list \<Rightarrow> frame \<Rightarrow> frame step" where
  "runLoops sum64 reset inserts deletions w =
     (case insertLoop sum64 reset inserts w of
        Continue w' \<Rightarrow> deleteLoop sum64 deletions w'
      | Return e w' \<Rightarrow> Return e w'
      | Panic w' \<Rightarrow> Panic w')"

text \<open>
  What the caller has after the call: the returned error, or no return at all after a
  panic, and the gatherer with the memory as the call left it. Only a run that reaches
  line 258 assigns the working maps to the gatherer's fields; the \<open>return\<close> of line
  198 leaves the fields as they were.
\<close>

datatype outcome = Returned "error option" | Panicked

definition leave :: "frame step \<Rightarrow> outcome \<times> CachedTGatherer" where
  "leave r =
     (case r of
        Continue w \<Rightarrow>
          (Returned (MaybeUnwrap (errs w)),
           CachedTGatherer.truncate
             (w\<lparr>metrics := currMetrics w, metricFamilyByName := currMetricFamilies w\<rparr>))
      | Return e w \<Rightarrow> (Returned (Some e), CachedTGatherer.truncate w)
      | Panic w \<Rightarrow> (Panicked, CachedTGatherer.truncate w))"

definition Update :: "(string \<Rightarrow> uint64) \<Rightarrow> bool \<Rightarrow> Insert list \<Rightarrow> Key list \<Rightarrow> CachedTGatherer \<Rightarrow> outcome \<times> CachedTGatherer" where
  "Update sum64 reset inserts deletions c =
     leave (runLoops sum64 reset inserts deletions (enter reset c))"

subsection \<open>Gather\<close>

text \<open>
  Modelled from the spec: \<open>internal.NormalizeMetricFamilies\<close>, which is not part of
  this file. The families are presented in the order of their names and, within a
  family, the members in the order of their label values. A family is given here with
  the metric records its slice points to.
\<close>

definition NormalizeMetricFamilies :: "'a memory_scheme \<Rightarrow> (string \<rightharpoonup> addr) \<Rightarrow> (MetricFamily \<times> Metric list) list" where
  "NormalizeMetricFamilies s fm =
     List.map_filter
       (\<lambda>n. map_option
               (\<lambda>f. (familyAt s f,
                     sort_key (\<lambda>m. map snd (Label m)) (map (metricAt s) (Metric (familyAt s f)))))
               (fm n))
       (sorted_list_of_set (dom fm))"

text \<open>
  \<open>Gather\<close> returns the normalized families of \<open>c.metricFamilyByName\<close>, the unlock
  function and a nil error; the families are what is modelled.
\<close>

definition Gather :: "'a CachedTGatherer_scheme \<Rightarrow> (MetricFamily \<times> Metric list) list" where
  "Gather c = NormalizeMetricFamilies c (familyMapAt c (metricFamilyByName c))"

subsection \<open>Notions used in the statements\<close>

text \<open>
  The two indexes as a caller of the gatherer sees them: the map objects its two fields
  point to. \<open>members\<close> is the slice of the family registered under a name.
\<close>

definition byHash :: "'a CachedTGatherer_scheme \<Rightarrow> (uint64 \<rightharpoonup> addr)" where
  "byHash c = metricMapAt c (metrics c)"

definition byName :: "'a CachedTGatherer_scheme \<Rightarrow> (string \<rightharpoonup> addr)" where
  "byName c = familyMapAt c (metricFamilyByName c)"

definition members :: "'a CachedTGatherer_scheme \<Rightarrow> string \<Rightarrow> addr list" where
  "members c n = (case byName c n of None \<Rightarrow> [] | Some f \<Rightarrow> Metric (familyAt c f))"

text \<open>The map objects of the gatherer have been allocated.\<close>

definition allocated :: "'a CachedTGatherer_scheme \<Rightarrow> bool" where
  "allocated c \<longleftrightarrow> metrics c < nextAddr c \<and> metricFamilyByName c < nextAddr c"

text \<open>The same of a frame, with its two working maps.\<close>

definition framed :: "frame \<Rightarrow> bool" where
  "framed w \<longleftrightarrow> metrics w < nextAddr w \<and> metricFamilyByName w < nextAddr w \<and>
     currMetrics w < nextAddr w \<and> currMetricFamilies w < nextAddr w"

text \<open>
  A value type outside the three kinds, and an insert that reaches the \<open>switch\<close> with
  one: its key is valid and its value type is unsupported.
\<close>

definition unsupported :: "ValueType \<Rightarrow> bool" where
  "unsupported t \<longleftrightarrow> t \<noteq> CounterValue \<and> t \<noteq> GaugeValue \<and> t \<noteq> UntypedValue"

definition aborts :: "Insert \<Rightarrow> bool" where
  "aborts ins \<longleftrightarrow> isValid ins = None \<and> unsupported (ValueType ins)"

text \<open>The frame a loop body or a loop ends with.\<close>

fun frameOf :: "'a step \<Rightarrow> 'a" where
  "frameOf (Continue w) = w"
| "frameOf (Return e w) = w"
| "frameOf (Panic w) = w"

abbreviation pushErrs :: "error list \<Rightarrow> frame \<Rightarrow> frame" where
  "pushErrs E \<equiv> (\<lambda>w. w\<lparr>errs := E @ errs w\<rparr>)"

subsection \<open>Concrete inputs\<close>

definition gaugeA1 :: Insert where
  "gaugeA1 = \<lparr>FQName = ''a'', LabelNames = [''x''], LabelValues = [''1''], Help = ''help'',
              ValueType = GaugeValue, Value = 7, Timestamp = None\<rparr>"

definition gaugeA2 :: Insert where
  "gaugeA2 = \<lparr>FQName = ''a'', LabelNames = [''x''], LabelValues = [''2''], Help = ''help'',
              ValueType = GaugeValue, Value = 8, Timestamp = None\<rparr>"

definition counterA1 :: Insert where
  "counterA1 = \<lparr>FQName = ''a'', LabelNames = [''x''], LabelValues = [''1''], Help = ''new help'',
              ValueType = CounterValue, Value = 9,
              Timestamp = Some \<lparr>Unix = 5, Nanosecond = 7000000\<rparr>\<rparr>"

definition badKindB :: Insert where
  "badKindB = \<lparr>FQName = ''b'', LabelNames = [], LabelValues = [], Help = ''help'',
              ValueType = 99, Value = 0, Timestamp = None\<rparr>"

definition badKindNoName :: Insert where
  "badKindNoName = \<lparr>FQName = [], LabelNames = [], LabelValues = [], Help = ''help'',
              ValueType = 99, Value = 0, Timestamp = None\<rparr>"

definition keyC :: Key where
  "keyC = \<lparr>FQName = ''c'', LabelNames = [], LabelValues = []\<rparr>"

definition keyA2 :: Key where
  "keyA2 = \<lparr>FQName = ''a'', LabelNames = [''x''], LabelValues = [''2'']\<rparr>"

definition keyShort :: Key where
  "keyShort = \<lparr>FQName = ''a'', LabelNames = [''x''], LabelValues = []\<rparr>"

text \<open>
  A key without labels whose name is the bytes that \<open>hash\<close> writes for the name
  \<open>a\<close> and the label pair \<open>x\<close>, \<open>1\<close>, short of the last separator.
\<close>

definition keyA1Joined :: Key where
  "keyA1Joined =
     \<lparr>FQName = ''a'' @ [separatorByte] @ ''x'' @ [separatorByte] @ ''1'',
      LabelNames = [], LabelValues = []\<rparr>"

definition keyXY :: Key where
  "keyXY = \<lparr>FQName = ''a'', LabelNames = [''x'', ''y''], LabelValues = [''1'', ''2'']\<rparr>"

definition keyYX :: Key where
  "keyYX = \<lparr>FQName = ''a'', LabelNames = [''y'', ''x''], LabelValues = [''2'', ''1'']\<rparr>"

text \<open>A gatherer after one insert, and after two of the same family.\<close>

definition cacheA1 :: CachedTGatherer where
  "cacheA1 = snd (Update Sum64 False [gaugeA1] [] NewCachedTGatherer)"

definition cacheA12 :: CachedTGatherer where
  "cacheA12 = snd (Update Sum64 False [gaugeA1, gaugeA2] [] NewCachedTGatherer)"

text \<open>
  A gatherer after three calls that all return nil: the two inserts under reset, then the
  deletion of the second key, then (in the statement below) the first insert again.
\<close>

definition cacheR12 :: CachedTGatherer where
  "cacheR12 = snd (Update Sum64 True [gaugeA1, gaugeA2] [] NewCachedTGatherer)"

definition cacheR12D :: CachedTGatherer where
  "cacheR12D = snd (Update Sum64 False [] [keyA2] cacheR12)"

section \<open>Properties\<close>

subsection \<open>Valid keys and the digest\<close>

text \<open>
  The digest is XXH64: it agrees with the values published with the algorithm and with
  the xxhash package, among them one of an input longer than a stripe. A key that passed
  \<open>isValid\<close> has a hash: the loop of \<open>hash\<close> stays in range.
\<close>

lemma Sum64_vectors:
  "Sum64 [] = 0xEF46DB3751D8E999"
  "Sum64 ''a'' = 0xD24EC4F1A98C6E5B"
  "Sum64 ''as'' = 0x1C330FB2D66BE179"
  "Sum64 ''asd'' = 0x631C37CE72A97393"
  "Sum64 ''asdf'' = 0x415872F599CEA71E"
  "Sum64 ''Call me Ishmael. Some years ago--never mind how long precisely-'' = 0x02A2E85470D6FD96"
  by code_simp+

lemma writeLabels_Some: "length ns \<le> length vs \<Longrightarrow> \<exists>ls. writeLabels ns vs = Some ls"
  by (induction ns vs rule: writeLabels.induct) auto

lemma isValid_hash: "isValid k = None \<Longrightarrow> \<exists>h. hash sum64 k = Some h"
  using writeLabels_Some [of "LabelNames k" "LabelValues k"]
  by (auto simp: isValid_def hash_def split: if_splits)

subsection \<open>What a loop body leaves alone\<close>

text \<open>
  No loop body assigns the two fields of the gatherer or the two working map variables.
  While the working maps are other objects than the gatherer's, which is so under reset,
  the first loop does not write the gatherer's map objects.
\<close>

lemmas mem_defs = setFamily_def setMetric_def setFamilyMap_def setMetricMap_def
  newFamily_def newMetric_def makeMetricMap_def makeFamilyMap_def

lemmas ins_defs = updateFamily_def metricPointer_def storeMetric_def

lemma insertOne_fields:
  "metrics (frameOf (insertOne sum64 reset ins w)) = metrics w \<and>
   metricFamilyByName (frameOf (insertOne sum64 reset ins w)) = metricFamilyByName w \<and>
   currMetrics (frameOf (insertOne sum64 reset ins w)) = currMetrics w \<and>
   currMetricFamilies (frameOf (insertOne sum64 reset ins w)) = currMetricFamilies w"
  by (simp add: insertOne_def ins_defs mem_defs Let_def split: option.splits prod.splits)

lemma insertLoop_fields:
  "metrics (frameOf (insertLoop sum64 reset xs w)) = metrics w \<and>
   metricFamilyByName (frameOf (insertLoop sum64 reset xs w)) = metricFamilyByName w \<and>
   currMetrics (frameOf (insertLoop sum64 reset xs w)) = currMetrics w \<and>
   currMetricFamilies (frameOf (insertLoop sum64 reset xs w)) = currMetricFamilies w"
proof (induction xs arbitrary: w)
  case Nil
  show ?case by simp
next
  case (Cons i xs)
  note f = insertOne_fields [of sum64 reset i w]
  show ?case
  proof (cases "insertOne sum64 reset i w")
    case (Continue w1)
    with f Cons.IH [of w1] show ?thesis by simp
  next
    case (Return e w1)
    with f show ?thesis by simp
  next
    case (Panic w1)
    with f show ?thesis by simp
  qed
qed

lemma deleteOne_fields:
  "metrics (frameOf (deleteOne sum64 del w)) = metrics w \<and>
   metricFamilyByName (frameOf (deleteOne sum64 del w)) = metricFamilyByName w \<and>
   currMetrics (frameOf (deleteOne sum64 del w)) = currMetrics w \<and>
   currMetricFamilies (frameOf (deleteOne sum64 del w)) = currMetricFamilies w"
  by (simp add: deleteOne_def mem_defs Let_def split: option.splits)

lemma deleteLoop_fields:
  "metrics (frameOf (deleteLoop sum64 ds w)) = metrics w \<and>
   metricFamilyByName (frameOf (deleteLoop sum64 ds w)) = metricFamilyByName w \<and>
   currMetrics (frameOf (deleteLoop sum64 ds w)) = currMetrics w \<and>
   currMetricFamilies (frameOf (deleteLoop sum64 ds w)) = currMetricFamilies w"
proof (induction ds arbitrary: w)
  case Nil
  show ?case by simp
next
  case (Cons i xs)
  note f = deleteOne_fields [of sum64 i w]
  show ?case
  proof (cases "deleteOne sum64 i w")
    case (Continue w1)
    with f Cons.IH [of w1] show ?thesis by simp
  next
    case (Return e w1)
    with f show ?thesis by simp
  next
    case (Panic w1)
    with f show ?thesis by simp
  qed
qed

lemma insertOne_live_maps:
  "currMetrics w \<noteq> metrics w \<Longrightarrow> currMetricFamilies w \<noteq> metricFamilyByName w \<Longrightarrow>
   metricMapAt (frameOf (insertOne sum64 reset ins w)) (metrics w) = metricMapAt w (metrics w) \<and>
   familyMapAt (frameOf (insertOne sum64 reset ins w)) (metricFamilyByName w) = familyMapAt w (metricFamilyByName w)"
  by (simp add: insertOne_def ins_defs mem_defs Let_def split: option.splits prod.splits)

lemma insertLoop_live_maps:
  "currMetrics w \<noteq> metrics w \<Longrightarrow> currMetricFamilies w \<noteq> metricFamilyByName w \<Longrightarrow>
   metrics (frameOf (insertLoop sum64 reset inserts w)) = metrics w \<and>
   metricFamilyByName (frameOf (insertLoop sum64 reset inserts w)) = metricFamilyByName w \<and>
   metricMapAt (frameOf (insertLoop sum64 reset inserts w)) (metrics w) = metricMapAt w (metrics w) \<and>
   familyMapAt (frameOf (insertLoop sum64 reset inserts w)) (metricFamilyByName w) = familyMapAt w (metricFamilyByName w)"
proof (induction inserts arbitrary: w)
  case Nil
  then show ?case by simp
next
  case (Cons ins rest)
  let ?r = "insertOne sum64 reset ins w"
  note f = insertOne_fields [of sum64 reset ins w]
  note l = insertOne_live_maps [OF Cons.prems, of sum64 reset ins]
  show ?case
  proof (cases ?r)
    case (Continue w')
    with f l Cons.prems have "currMetrics w' \<noteq> metrics w'" "currMetricFamilies w' \<noteq> metricFamilyByName w'"
      by simp_all
    from Cons.IH [OF this] f l Continue show ?thesis by simp
  next
    case (Return e w')
    with f l show ?thesis by simp
  next
    case (Panic w')
    with f l show ?thesis by simp
  qed
qed

lemma enter_reset:
  "allocated c \<Longrightarrow>
   currMetrics (enter True c) \<noteq> metrics (enter True c) \<and>
   currMetricFamilies (enter True c) \<noteq> metricFamilyByName (enter True c) \<and>
   metrics (enter True c) = metrics c \<and> metricFamilyByName (enter True c) = metricFamilyByName c \<and>
   metricMapAt (enter True c) (metrics c) = metricMapAt c (metrics c) \<and>
   familyMapAt (enter True c) (metricFamilyByName c) = familyMapAt c (metricFamilyByName c)"
  by (auto simp: allocated_def enter_def mem_defs CachedTGatherer.defs)


subsection \<open>How the loops end\<close>

text \<open>
  An insert ends the call exactly when its key is valid and its value type unsupported;
  every other loop body goes on to the next item. No run panics.
\<close>

lemma setValue_None: "setValue t v m = None \<longleftrightarrow> unsupported t"
  by (simp add: setValue_def unsupported_def)

lemma insertOne_aborts:
  assumes "aborts ins"
  shows "\<exists>w'. insertOne sum64 reset ins w = Return (ErrUnsupportedValueType (ValueType ins)) w'"
proof -
  from assms obtain h where "hash sum64 ins = Some h"
    using isValid_hash unfolding aborts_def by blast
  moreover from assms have "\<And>m. setValue (ValueType ins) (Value ins) m = None"
    by (simp add: setValue_None aborts_def)
  ultimately show ?thesis using assms
    by (simp add: insertOne_def aborts_def split: prod.splits)
qed

lemma insertOne_continues:
  assumes "\<not> aborts ins"
  shows "\<exists>w'. insertOne sum64 reset ins w = Continue w'"
proof (cases "isValid ins")
  case (Some err)
  then show ?thesis by (simp add: insertOne_def)
next
  case None
  then obtain h where "hash sum64 ins = Some h"
    using isValid_hash by blast
  moreover from None assms have "\<not> unsupported (ValueType ins)"
    by (simp add: aborts_def)
  ultimately show ?thesis using None
    by (simp add: insertOne_def setValue_None split: prod.splits option.splits)
qed

lemma insertLoop_append:
  "insertLoop sum64 reset (xs @ ys) w =
     (case insertLoop sum64 reset xs w of
        Continue w' \<Rightarrow> insertLoop sum64 reset ys w'
      | Return e w' \<Rightarrow> Return e w'
      | Panic w' \<Rightarrow> Panic w')"
  by (induction xs arbitrary: w) (auto split: step.splits)

lemma deleteLoop_append:
  "deleteLoop sum64 (xs @ ys) w =
     (case deleteLoop sum64 xs w of
        Continue w' \<Rightarrow> deleteLoop sum64 ys w'
      | Return e w' \<Rightarrow> Return e w'
      | Panic w' \<Rightarrow> Panic w')"
  by (induction xs arbitrary: w) (auto split: step.splits)

lemma insertLoop_continues:
  "\<forall>i \<in> set xs. \<not> aborts i \<Longrightarrow> \<exists>w'. insertLoop sum64 reset xs w = Continue w'"
proof (induction xs arbitrary: w)
  case Nil
  then show ?case by simp
next
  case (Cons i xs)
  then obtain w1 where "insertOne sum64 reset i w = Continue w1"
    using insertOne_continues [of i sum64 reset w] by auto
  with Cons show ?case by simp
qed

lemma deleteOne_no_Return: "deleteOne sum64 del w \<noteq> Return e w'"
  by (simp add: deleteOne_def Let_def split: option.splits)

lemma deleteLoop_no_Return: "deleteLoop sum64 dels w \<noteq> Return e w'"
  by (induction dels arbitrary: w) (auto simp: deleteOne_no_Return split: step.splits)

lemma insertOne_no_Panic: "insertOne sum64 reset ins w \<noteq> Panic w'"
proof (cases "isValid ins")
  case None
  then obtain h where "hash sum64 ins = Some h"
    using isValid_hash by blast
  with None show ?thesis
    by (simp add: insertOne_def split: prod.splits option.splits)
next
  case (Some e)
  then show ?thesis by (simp add: insertOne_def)
qed

lemma deleteOne_no_Panic: "deleteOne sum64 del w \<noteq> Panic w'"
proof (cases "isValid del")
  case None
  then obtain h where "hash sum64 del = Some h"
    using isValid_hash by blast
  with None show ?thesis
    by (simp add: deleteOne_def Let_def split: option.splits)
next
  case (Some e)
  then show ?thesis by (simp add: deleteOne_def)
qed

lemma insertLoop_no_Panic: "insertLoop sum64 reset xs w \<noteq> Panic w'"
  by (induction xs arbitrary: w) (auto simp: insertOne_no_Panic split: step.splits)

lemma deleteLoop_no_Panic: "deleteLoop sum64 ds w \<noteq> Panic w'"
  by (induction ds arbitrary: w) (auto simp: deleteOne_no_Panic split: step.splits)

lemma deleteLoop_Continue: "\<exists>w'. deleteLoop sum64 ds w = Continue w'"
  using deleteLoop_no_Panic [of sum64 ds w] deleteLoop_no_Return [of sum64 ds w]
  by (cases "deleteLoop sum64 ds w") auto

lemma runLoops_no_Panic: "runLoops sum64 reset xs ds w \<noteq> Panic w'"
  by (simp add: runLoops_def insertLoop_no_Panic deleteLoop_no_Panic split: step.splits)

lemma runLoops_Continue:
  assumes "\<forall>i \<in> set xs. \<not> aborts i"
  shows "\<exists>w'. runLoops sum64 reset xs ds w = Continue w'"
proof -
  obtain w1 where "insertLoop sum64 reset xs w = Continue w1"
    using insertLoop_continues [OF assms] by blast
  then show ?thesis
    using deleteLoop_Continue [of sum64 ds w1] by (simp add: runLoops_def)
qed

lemma runLoops_append:
  "runLoops sum64 reset (xs @ ys) ds w =
     (case insertLoop sum64 reset xs w of
        Continue w' \<Rightarrow> runLoops sum64 reset ys ds w'
      | Return e w' \<Rightarrow> Return e w'
      | Panic w' \<Rightarrow> Panic w')"
  by (simp add: runLoops_def insertLoop_append split: step.splits)

lemma Update_leave: "Update sum64 reset xs ds c = leave (runLoops sum64 reset xs ds (enter reset c))"
  by (simp add: Update_def)

lemma fst_leave_Continue: "fst (leave (Continue w)) = Returned (MaybeUnwrap (errs w))"
  by (simp add: leave_def)

lemma leave_Continue_sel:
  "metrics (snd (leave (Continue w))) = currMetrics w"
  "metricFamilyByName (snd (leave (Continue w))) = currMetricFamilies w"
  "metricAt (snd (leave (Continue w))) = metricAt w"
  "familyAt (snd (leave (Continue w))) = familyAt w"
  "metricMapAt (snd (leave (Continue w))) = metricMapAt w"
  "familyMapAt (snd (leave (Continue w))) = familyMapAt w"
  "nextAddr (snd (leave (Continue w))) = nextAddr w"
  by (simp_all add: leave_def CachedTGatherer.defs)

lemma Update_never_panics: "fst (Update sum64 reset xs ds c) \<noteq> Panicked"
  by (simp add: Update_def leave_def runLoops_no_Panic split: step.splits)

subsection \<open>Allocation\<close>

text \<open>
  The maps of a new gatherer are allocated, and Update keeps them so: the allocation
  counter never decreases.
\<close>

lemma insertOne_nextAddr: "nextAddr w \<le> nextAddr (frameOf (insertOne sum64 reset ins w))"
  by (simp add: insertOne_def ins_defs mem_defs Let_def split: option.splits prod.splits)

lemma deleteOne_nextAddr: "nextAddr (frameOf (deleteOne sum64 del w)) = nextAddr w"
  by (simp add: deleteOne_def mem_defs Let_def split: option.splits)

lemma insertLoop_nextAddr: "nextAddr w \<le> nextAddr (frameOf (insertLoop sum64 reset xs w))"
proof (induction xs arbitrary: w)
  case Nil
  show ?case by simp
next
  case (Cons i xs)
  note n = insertOne_nextAddr [of w sum64 reset i]
  show ?case
  proof (cases "insertOne sum64 reset i w")
    case (Continue w1)
    with n Cons.IH [of w1] show ?thesis by simp
  next
    case (Return e w1)
    with n show ?thesis by simp
  next
    case (Panic w1)
    with n show ?thesis by simp
  qed
qed

lemma deleteLoop_nextAddr: "nextAddr (frameOf (deleteLoop sum64 ds w)) = nextAddr w"
proof (induction ds arbitrary: w)
  case Nil
  show ?case by simp
next
  case (Cons d ds)
  note n = deleteOne_nextAddr [of sum64 d w]
  show ?case
  proof (cases "deleteOne sum64 d w")
    case (Continue w1)
    with n Cons.IH [of w1] show ?thesis by simp
  next
    case (Return e w1)
    with n show ?thesis by simp
  next
    case (Panic w1)
    with n show ?thesis by simp
  qed
qed

lemma runLoops_framed:
  assumes "framed w"
  shows "framed (frameOf (runLoops sum64 reset xs ds w))"
proof -
  let ?r = "insertLoop sum64 reset xs w"
  have a: "framed (frameOf ?r)"
    using assms insertLoop_fields [of sum64 reset xs w] insertLoop_nextAddr [of w sum64 reset xs]
    by (simp add: framed_def)
  show ?thesis
  proof (cases ?r)
    case (Continue w1)
    with a have "framed w1" by simp
    then have "framed (frameOf (deleteLoop sum64 ds w1))"
      using deleteLoop_fields [of sum64 ds w1] deleteLoop_nextAddr [of sum64 ds w1]
      by (simp add: framed_def)
    with Continue show ?thesis by (simp add: runLoops_def)
  next
    case (Return e w1)
    with a show ?thesis by (simp add: runLoops_def)
  next
    case (Panic w1)
    with a show ?thesis by (simp add: runLoops_def)
  qed
qed

lemma enter_framed: "allocated c \<Longrightarrow> framed (enter reset c)"
  by (cases reset) (simp_all add: allocated_def framed_def enter_def mem_defs CachedTGatherer.defs Let_def)

lemma leave_allocated: "framed (frameOf r) \<Longrightarrow> allocated (snd (leave r))"
  by (cases r) (simp_all add: leave_def framed_def allocated_def CachedTGatherer.defs)

lemma allocated_New: "allocated NewCachedTGatherer"
  by (simp add: allocated_def NewCachedTGatherer_def)

lemma allocated_Update: "allocated c \<Longrightarrow> allocated (snd (Update sum64 reset xs ds c))"
  by (simp add: Update_leave leave_allocated runLoops_framed enter_framed)

subsection \<open>The error list is only appended to\<close>

text \<open>
  No loop body reads \<open>errs\<close>: a run from a frame with other errors recorded is the
  same run with the other errors in front.
\<close>

lemma updateFamily_errs:
  "updateFamily reset ins (w\<lparr>errs := E\<rparr>) = (fst (updateFamily reset ins w), (snd (updateFamily reset ins w))\<lparr>errs := E\<rparr>)"
  by (simp add: updateFamily_def mem_defs Let_def split: option.splits)

lemma metricPointer_errs:
  "metricPointer h ins (w\<lparr>errs := E\<rparr>) =
     (fst (metricPointer h ins w), fst (snd (metricPointer h ins w)), (snd (snd (metricPointer h ins w)))\<lparr>errs := E\<rparr>)"
  by (simp add: metricPointer_def mem_defs Let_def split: option.splits)

lemma storeMetric_errs:
  "storeMetric reset ins mf m ok h v (w\<lparr>errs := E\<rparr>) = (storeMetric reset ins mf m ok h v w)\<lparr>errs := E\<rparr>"
  by (simp add: storeMetric_def mem_defs Let_def)

lemma updateFamily_errs_same: "errs (snd (updateFamily reset ins w)) = errs w"
  by (simp add: updateFamily_def mem_defs Let_def split: option.splits)

lemma metricPointer_errs_same: "errs (snd (snd (metricPointer h ins w))) = errs w"
  by (simp add: metricPointer_def mem_defs Let_def split: option.splits)

lemma storeMetric_errs_same: "errs (storeMetric reset ins mf m ok h v w) = errs w"
  by (simp add: storeMetric_def mem_defs Let_def)

lemma insertOne_errs:
  "insertOne sum64 reset ins (w\<lparr>errs := E\<rparr>) =
     map_step (pushErrs E) (insertOne sum64 reset ins (w\<lparr>errs := []\<rparr>))"
  by (simp add: insertOne_def updateFamily_errs metricPointer_errs storeMetric_errs
      updateFamily_errs_same metricPointer_errs_same storeMetric_errs_same
      split: option.splits prod.splits)

lemma deleteOne_errs:
  "deleteOne sum64 del (w\<lparr>errs := E\<rparr>) =
     map_step (pushErrs E) (deleteOne sum64 del (w\<lparr>errs := []\<rparr>))"
  by (simp add: deleteOne_def mem_defs Let_def split: option.splits)

lemma insertLoop_errs:
  "insertLoop sum64 reset xs (w\<lparr>errs := E\<rparr>) =
     map_step (pushErrs E) (insertLoop sum64 reset xs (w\<lparr>errs := []\<rparr>))"
proof (induction xs arbitrary: w E)
  case Nil
  show ?case by simp
next
  case (Cons i xs)
  show ?case
  proof (cases "insertOne sum64 reset i (w\<lparr>errs := []\<rparr>)")
    case (Continue w1)
    have a: "insertOne sum64 reset i (w\<lparr>errs := E\<rparr>) = Continue (w1\<lparr>errs := E @ errs w1\<rparr>)"
      by (simp add: insertOne_errs [where w=w and E=E] Continue)
    have b: "insertLoop sum64 reset xs w1 =
        map_step (pushErrs (errs w1)) (insertLoop sum64 reset xs (w1\<lparr>errs := []\<rparr>))"
      using Cons.IH [where w=w1 and E="errs w1"] by simp
    show ?thesis
      by (simp add: a Continue Cons.IH [where w=w1 and E="E @ errs w1"] b step.map_comp o_def)
  next
    case (Return e w1)
    then show ?thesis by (simp add: insertOne_errs [where w=w and E=E])
  next
    case (Panic w1)
    then show ?thesis by (simp add: insertOne_errs [where w=w and E=E])
  qed
qed

lemma deleteLoop_errs:
  "deleteLoop sum64 xs (w\<lparr>errs := E\<rparr>) =
     map_step (pushErrs E) (deleteLoop sum64 xs (w\<lparr>errs := []\<rparr>))"
proof (induction xs arbitrary: w E)
  case Nil
  show ?case by simp
next
  case (Cons i xs)
  show ?case
  proof (cases "deleteOne sum64 i (w\<lparr>errs := []\<rparr>)")
    case (Continue w1)
    have a: "deleteOne sum64 i (w\<lparr>errs := E\<rparr>) = Continue (w1\<lparr>errs := E @ errs w1\<rparr>)"
      by (simp add: deleteOne_errs [where w=w and E=E] Continue)
    have b: "deleteLoop sum64 xs w1 =
        map_step (pushErrs (errs w1)) (deleteLoop sum64 xs (w1\<lparr>errs := []\<rparr>))"
      using Cons.IH [where w=w1 and E="errs w1"] by simp
    show ?thesis
      by (simp add: a Continue Cons.IH [where w=w1 and E="E @ errs w1"] b step.map_comp o_def)
  next
    case (Return e w1)
    then show ?thesis by (simp add: deleteOne_errs [where w=w and E=E])
  next
    case (Panic w1)
    then show ?thesis by (simp add: deleteOne_errs [where w=w and E=E])
  qed
qed

lemma runLoops_errs:
  "runLoops sum64 reset xs ds (w\<lparr>errs := E\<rparr>) =
     map_step (pushErrs E) (runLoops sum64 reset xs ds (w\<lparr>errs := []\<rparr>))"
proof (cases "insertLoop sum64 reset xs (w\<lparr>errs := []\<rparr>)")
  case (Continue w1)
  have b: "deleteLoop sum64 ds w1 =
        map_step (pushErrs (errs w1)) (deleteLoop sum64 ds (w1\<lparr>errs := []\<rparr>))"
    using deleteLoop_errs [where w=w1 and E="errs w1" and xs=ds and ?sum64.0=sum64] by simp
  show ?thesis
    by (simp add: runLoops_def insertLoop_errs [where w=w and E=E] Continue
        deleteLoop_errs [where w=w1 and E="E @ errs w1"] b step.map_comp o_def)
next
  case (Return e w1)
  then show ?thesis by (simp add: runLoops_def insertLoop_errs [where w=w and E=E])
next
  case (Panic w1)
  then show ?thesis by (simp add: runLoops_def insertLoop_errs [where w=w and E=E])
qed

lemma runLoops_from:
  "runLoops sum64 reset xs ds w =
     map_step (pushErrs (errs w)) (runLoops sum64 reset xs ds (w\<lparr>errs := []\<rparr>))"
  using runLoops_errs [where w=w and E="errs w"] by simp

lemma deleteLoop_from:
  "deleteLoop sum64 ds w = map_step (pushErrs (errs w)) (deleteLoop sum64 ds (w\<lparr>errs := []\<rparr>))"
  using deleteLoop_errs [where w=w and E="errs w"] by simp

lemma snd_leave_errs: "snd (leave (map_step (\<lambda>w. w\<lparr>errs := f w\<rparr>) r)) = snd (leave r)"
  by (cases r) (simp_all add: leave_def CachedTGatherer.defs)

lemma MaybeUnwrap_nonempty: "MaybeUnwrap (xs @ e # ys) = Some (MultiError (xs @ e # ys))"
  by (simp add: MaybeUnwrap_def)

subsection \<open>Single items\<close>

text \<open>
  An item with an invalid key, a deletion of an absent hash, the deletion of the only
  member of a family, and the insert of a hash that is present, without reset.
\<close>

lemma deleteOne_absent:
  "isValid del = None \<Longrightarrow> hash sum64 del = Some h \<Longrightarrow> metricMapAt w (currMetrics w) h = None
   \<Longrightarrow> deleteOne sum64 del w = Continue w"
  by (simp add: deleteOne_def)

lemma deleteOne_invalid:
  "isValid badk = Some e \<Longrightarrow> deleteOne sum64 badk w = Continue (w\<lparr>errs := errs w @ [e]\<rparr>)"
  by (simp add: deleteOne_def)

lemma runLoops_Cons_invalid:
  "isValid bad = Some e \<Longrightarrow>
   runLoops sum64 reset (bad # post) ds w = runLoops sum64 reset post ds (w\<lparr>errs := errs w @ [e]\<rparr>)"
  by (simp add: runLoops_def insertOne_def)

lemma delete_only_member:
  assumes "isValid del = None" and "hash sum64 del = Some h"
    and "metricMapAt w (currMetrics w) h = Some m"
    and "familyMapAt w (currMetricFamilies w) (FQName del) = Some mf"
    and "Metric (familyAt w mf) = [m]"
  shows "\<exists>w'. deleteOne sum64 del w = Continue w' \<and> errs w' = errs w \<and>
           familyMapAt w' (currMetricFamilies w') (FQName del) = None \<and>
           metricMapAt w' (currMetrics w') h = None"
  using assms by (simp add: deleteOne_def mem_defs Let_def)


lemma skip_insert_state:
  assumes "isValid bad = Some e"
  shows "snd (Update sum64 reset (pre @ bad # post) ds c) = snd (Update sum64 reset (pre @ post) ds c)"
proof (cases "insertLoop sum64 reset pre (enter reset c)")
  case (Continue w1)
  let ?R0 = "runLoops sum64 reset post ds (w1\<lparr>errs := []\<rparr>)"
  have "runLoops sum64 reset (pre @ bad # post) ds (enter reset c)
          = map_step (pushErrs (errs w1 @ [e])) ?R0"
    by (simp add: runLoops_append Continue runLoops_Cons_invalid [OF assms]
        runLoops_errs [where w=w1 and E="errs w1 @ [e]"])
  moreover have "runLoops sum64 reset (pre @ post) ds (enter reset c)
          = map_step (pushErrs (errs w1)) ?R0"
    using runLoops_from [of sum64 reset post ds w1] by (simp add: runLoops_append Continue)
  ultimately show ?thesis
    by (simp add: Update_leave snd_leave_errs)
next
  case (Return err w1)
  then show ?thesis by (simp add: Update_leave runLoops_append)
next
  case (Panic w1)
  then show ?thesis by (simp add: Update_leave runLoops_append)
qed

lemma skip_insert_errors:
  assumes "isValid bad = Some e" and "\<forall>i \<in> set (pre @ post). \<not> aborts i"
  shows "\<exists>E1 E2. fst (Update sum64 reset (pre @ post) ds c) = Returned (MaybeUnwrap (E1 @ E2)) \<and>
           fst (Update sum64 reset (pre @ bad # post) ds c) = Returned (Some (MultiError (E1 @ e # E2)))"
proof -
  from assms(2) have "\<forall>i \<in> set pre. \<not> aborts i" and post: "\<forall>i \<in> set post. \<not> aborts i"
    by auto
  then obtain w1 where w1: "insertLoop sum64 reset pre (enter reset c) = Continue w1"
    using insertLoop_continues by blast
  obtain w2 where w2: "runLoops sum64 reset post ds (w1\<lparr>errs := []\<rparr>) = Continue w2"
    using runLoops_Continue [OF post] by blast
  have a: "runLoops sum64 reset (pre @ bad # post) ds (enter reset c)
          = Continue (w2\<lparr>errs := (errs w1 @ [e]) @ errs w2\<rparr>)"
    by (simp add: runLoops_append w1 runLoops_Cons_invalid [OF assms(1)]
        runLoops_errs [where w=w1 and E="errs w1 @ [e]"] w2)
  have b: "runLoops sum64 reset (pre @ post) ds (enter reset c)
          = Continue (w2\<lparr>errs := errs w1 @ errs w2\<rparr>)"
    using runLoops_from [of sum64 reset post ds w1] by (simp add: runLoops_append w1 w2)
  have "fst (Update sum64 reset (pre @ post) ds c) = Returned (MaybeUnwrap (errs w1 @ errs w2))"
    by (simp add: Update_leave b fst_leave_Continue)
  moreover have "fst (Update sum64 reset (pre @ bad # post) ds c)
      = Returned (Some (MultiError (errs w1 @ e # errs w2)))"
    using MaybeUnwrap_nonempty [of "errs w1" e "errs w2"]
    by (simp add: Update_leave a fst_leave_Continue)
  ultimately show ?thesis by blast
qed

lemma skip_delete_state:
  assumes "isValid badk = Some e"
  shows "snd (Update sum64 reset xs (dpre @ badk # dpost) c) = snd (Update sum64 reset xs (dpre @ dpost) c)"
proof (cases "insertLoop sum64 reset xs (enter reset c)")
  case (Continue w1)
  obtain w2 where w2: "deleteLoop sum64 dpre w1 = Continue w2"
    using deleteLoop_Continue by blast
  let ?D0 = "deleteLoop sum64 dpost (w2\<lparr>errs := []\<rparr>)"
  have "runLoops sum64 reset xs (dpre @ badk # dpost) (enter reset c)
          = map_step (pushErrs (errs w2 @ [e])) ?D0"
    by (simp add: runLoops_def Continue deleteLoop_append w2 deleteOne_invalid [OF assms]
        deleteLoop_errs [where w=w2 and E="errs w2 @ [e]"])
  moreover have "runLoops sum64 reset xs (dpre @ dpost) (enter reset c)
          = map_step (pushErrs (errs w2)) ?D0"
    using deleteLoop_from [of sum64 dpost w2] by (simp add: runLoops_def Continue deleteLoop_append w2)
  ultimately show ?thesis
    by (simp add: Update_leave snd_leave_errs)
next
  case (Return err w1)
  then show ?thesis by (simp add: Update_leave runLoops_def)
next
  case (Panic w1)
  then show ?thesis by (simp add: Update_leave runLoops_def)
qed

lemma skip_delete_errors:
  assumes "isValid badk = Some e" and "\<forall>i \<in> set xs. \<not> aborts i"
  shows "\<exists>E1 E2. fst (Update sum64 reset xs (dpre @ dpost) c) = Returned (MaybeUnwrap (E1 @ E2)) \<and>
           fst (Update sum64 reset xs (dpre @ badk # dpost) c) = Returned (Some (MultiError (E1 @ e # E2)))"
proof -
  obtain w1 where w1: "insertLoop sum64 reset xs (enter reset c) = Continue w1"
    using insertLoop_continues [OF assms(2)] by blast
  obtain w2 where w2: "deleteLoop sum64 dpre w1 = Continue w2"
    using deleteLoop_Continue by blast
  obtain w3 where w3: "deleteLoop sum64 dpost (w2\<lparr>errs := []\<rparr>) = Continue w3"
    using deleteLoop_Continue by blast
  have a: "runLoops sum64 reset xs (dpre @ badk # dpost) (enter reset c)
          = Continue (w3\<lparr>errs := (errs w2 @ [e]) @ errs w3\<rparr>)"
    by (simp add: runLoops_def w1 deleteLoop_append w2 deleteOne_invalid [OF assms(1)]
        deleteLoop_errs [where w=w2 and E="errs w2 @ [e]"] w3)
  have b: "runLoops sum64 reset xs (dpre @ dpost) (enter reset c)
          = Continue (w3\<lparr>errs := errs w2 @ errs w3\<rparr>)"
    using deleteLoop_from [of sum64 dpost w2] by (simp add: runLoops_def w1 deleteLoop_append w2 w3)
  have "fst (Update sum64 reset xs (dpre @ dpost) c) = Returned (MaybeUnwrap (errs w2 @ errs w3))"
    by (simp add: Update_leave b fst_leave_Continue)
  moreover have "fst (Update sum64 reset xs (dpre @ badk # dpost) c)
      = Returned (Some (MultiError (errs w2 @ e # errs w3)))"
    using MaybeUnwrap_nonempty [of "errs w2" e "errs w3"]
    by (simp add: Update_leave a fst_leave_Continue)
  ultimately show ?thesis by blast
qed

subsection \<open>Evaluation at the concrete inputs\<close>

lemma hash_samples:
  "hash Sum64 gaugeA1 = Some 16421908215968682650"
  "hash Sum64 gaugeA2 = Some 18438155030022290649"
  "hash Sum64 badKindB = Some 678810169431779972"
  "hash Sum64 keyC = Some 6160836390864297911"
  "hash Sum64 keyXY = Some 16054952835925984801"
  "hash Sum64 keyYX = Some 3802759152918954288"
  by code_simp+

lemma hash_counterA1: "hash Sum64 counterA1 = Some 16421908215968682650"
  using hash_samples(1) by (simp add: hash_def counterA1_def gaugeA1_def)

lemma gaugeA1_fields:
  "FQName gaugeA1 = ''a''" "isValid gaugeA1 = None" "ValueType gaugeA1 = 2" "Value gaugeA1 = 7"
  "Timestamp gaugeA1 = None" "Help gaugeA1 = ''help''" "sortedLabelPairs gaugeA1 = [(''x'', ''1'')]"
  by (simp_all add: gaugeA1_def isValid_def GaugeValue_def sortedLabelPairs_def)

lemma gaugeA2_fields:
  "FQName gaugeA2 = ''a''" "isValid gaugeA2 = None" "ValueType gaugeA2 = 2" "Value gaugeA2 = 8"
  "Timestamp gaugeA2 = None" "Help gaugeA2 = ''help''" "sortedLabelPairs gaugeA2 = [(''x'', ''2'')]"
  by (simp_all add: gaugeA2_def isValid_def GaugeValue_def sortedLabelPairs_def)

lemma counterA1_fields:
  "FQName counterA1 = ''a''" "isValid counterA1 = None" "ValueType counterA1 = 1" "Value counterA1 = 9"
  "map_option timestampMs (Timestamp counterA1) = Some 5007" "Help counterA1 = ''new help''"
  "sortedLabelPairs counterA1 = [(''x'', ''1'')]"
  by (simp_all add: counterA1_def isValid_def CounterValue_def sortedLabelPairs_def timestampMs_def)

lemma badKindB_fields:
  "FQName badKindB = ''b''" "isValid badKindB = None" "ValueType badKindB = 99" "Value badKindB = 0"
  "Timestamp badKindB = None" "Help badKindB = ''help''" "sortedLabelPairs badKindB = []"
  by (simp_all add: badKindB_def isValid_def sortedLabelPairs_def)

lemma badKindNoName_fields:
  "isValid badKindNoName = Some ErrFQNameEmpty" "ValueType badKindNoName = 99"
  by (simp_all add: badKindNoName_def isValid_def)

lemma keyA2_fields:
  "isValid keyA2 = None" "FQName keyA2 = ''a''" "LabelValues keyA2 = [''2'']"
  "hash Sum64 keyA2 = Some 18438155030022290649"
  using hash_samples(2) by (simp_all add: keyA2_def isValid_def hash_def gaugeA2_def)

lemma key_fields:
  "isValid keyC = None" "FQName keyC = ''c''" "isValid keyShort = Some ErrLabelLength"
  by (simp_all add: keyC_def keyShort_def isValid_def)

lemmas sample_simps = hash_samples hash_counterA1 gaugeA1_fields gaugeA2_fields counterA1_fields badKindB_fields
  badKindNoName_fields key_fields

lemmas eval_defs = Update_def leave_def runLoops_def enter_def insertOne_def deleteOne_def
  updateFamily_def metricPointer_def storeMetric_def setValue_def ToDTO_def
  CounterValue_def GaugeValue_def UntypedValue_def mem_defs CachedTGatherer.defs frame.defs
  memory.defs MaybeUnwrap_def zeroMetric_def zeroMetricFamily_def Let_def

lemma cacheA1_eq:
  "cacheA1 =
     \<lparr>metricAt = (\<lambda>_. zeroMetric)
        (3 := \<lparr>Label = [(''x'', ''1'')], Gauge = Some 7, Counter = None, Untyped = None, TimestampMs = None\<rparr>),
      familyAt = (\<lambda>_. zeroMetricFamily)
        (2 := \<lparr>Name = Some ''a'', Help' = Some ''help'', Type = Some GAUGE, Metric = [3]\<rparr>),
      metricMapAt = (\<lambda>_. Map.empty)(0 := [16421908215968682650 \<mapsto> 3]),
      familyMapAt = (\<lambda>_. Map.empty)(1 := [''a'' \<mapsto> 2]),
      nextAddr = 4, metrics = 0, metricFamilyByName = 1\<rparr>"
  by (simp add: cacheA1_def eval_defs NewCachedTGatherer_def sample_simps)

lemma cacheA12_eq:
  "cacheA12 =
     \<lparr>metricAt = (\<lambda>_. zeroMetric)
        (3 := \<lparr>Label = [(''x'', ''1'')], Gauge = Some 7, Counter = None, Untyped = None, TimestampMs = None\<rparr>,
         4 := \<lparr>Label = [(''x'', ''2'')], Gauge = Some 8, Counter = None, Untyped = None, TimestampMs = None\<rparr>),
      familyAt = (\<lambda>_. zeroMetricFamily)
        (2 := \<lparr>Name = Some ''a'', Help' = Some ''help'', Type = Some GAUGE, Metric = [3, 4]\<rparr>),
      metricMapAt = (\<lambda>_. Map.empty)(0 := [16421908215968682650 \<mapsto> 3, 18438155030022290649 \<mapsto> 4]),
      familyMapAt = (\<lambda>_. Map.empty)(1 := [''a'' \<mapsto> 2]),
      nextAddr = 5, metrics = 0, metricFamilyByName = 1\<rparr>"
  by (simp add: cacheA12_def eval_defs NewCachedTGatherer_def sample_simps)

lemmas sel_defs = byHash_def byName_def members_def

lemma reset_on_new:
  "fst (Update Sum64 True [gaugeA1, gaugeA2] [] NewCachedTGatherer) = Returned None"
  "byHash (snd (Update Sum64 True [gaugeA1, gaugeA2] [] NewCachedTGatherer))
     = [16421908215968682650 \<mapsto> 5, 18438155030022290649 \<mapsto> 7]"
  "byName (snd (Update Sum64 True [gaugeA1, gaugeA2] [] NewCachedTGatherer)) = [''a'' \<mapsto> 6]"
  "members (snd (Update Sum64 True [gaugeA1, gaugeA2] [] NewCachedTGatherer)) ''a'' = [7]"
  by (simp_all add: sel_defs eval_defs NewCachedTGatherer_def sample_simps)

lemma reset_on_A12:
  "fst (Update Sum64 True [gaugeA1, gaugeA2] [] cacheA12) = Returned None"
  "byHash (snd (Update Sum64 True [gaugeA1, gaugeA2] [] cacheA12))
     = [16421908215968682650 \<mapsto> 3, 18438155030022290649 \<mapsto> 4]"
  "byName (snd (Update Sum64 True [gaugeA1, gaugeA2] [] cacheA12)) = [''a'' \<mapsto> 2]"
  "members (snd (Update Sum64 True [gaugeA1, gaugeA2] [] cacheA12)) ''a'' = [4]"
  by (simp_all add: sel_defs eval_defs cacheA12_eq sample_simps)

lemma abort_on_new:
  "fst (Update Sum64 False [badKindB] [] NewCachedTGatherer) = Returned (Some (ErrUnsupportedValueType 99))"
  "byName (snd (Update Sum64 False [badKindB] [] NewCachedTGatherer)) = [''b'' \<mapsto> 2]"
  "members (snd (Update Sum64 False [badKindB] [] NewCachedTGatherer)) ''b'' = []"
  "byHash (snd (Update Sum64 False [badKindB] [] NewCachedTGatherer)) = Map.empty"
  by (simp_all add: sel_defs eval_defs NewCachedTGatherer_def sample_simps)

lemma noname_on_new:
  "fst (Update Sum64 False [badKindNoName, gaugeA1] [] NewCachedTGatherer) = Returned (Some (MultiError [ErrFQNameEmpty]))"
  "byHash (snd (Update Sum64 False [badKindNoName, gaugeA1] [] NewCachedTGatherer)) = [16421908215968682650 \<mapsto> 3]"
  "members (snd (Update Sum64 False [badKindNoName, gaugeA1] [] NewCachedTGatherer)) ''a'' = [3]"
  by (simp_all add: sel_defs eval_defs NewCachedTGatherer_def sample_simps)

lemma abort_reset_on_A1:
  "fst (Update Sum64 True [gaugeA2, badKindB] [] cacheA1) = Returned (Some (ErrUnsupportedValueType 99))"
  "members (snd (Update Sum64 True [gaugeA2, badKindB] [] cacheA1)) ''a'' = [6]"
  by (simp_all add: sel_defs eval_defs cacheA1_eq sample_simps)

lemma cacheR12_eq:
  "cacheR12 =
     \<lparr>metricAt = (\<lambda>_. zeroMetric)
        (5 := \<lparr>Label = [(''x'', ''1'')], Gauge = Some 7, Counter = None, Untyped = None, TimestampMs = None\<rparr>,
         7 := \<lparr>Label = [(''x'', ''2'')], Gauge = Some 8, Counter = None, Untyped = None, TimestampMs = None\<rparr>),
      familyAt = (\<lambda>_. zeroMetricFamily)
        (4 := \<lparr>Name = Some ''a'', Help' = Some ''help'', Type = Some GAUGE, Metric = [5]\<rparr>,
         6 := \<lparr>Name = Some ''a'', Help' = Some ''help'', Type = Some GAUGE, Metric = [7]\<rparr>),
      metricMapAt = (\<lambda>_. Map.empty)(2 := [16421908215968682650 \<mapsto> 5, 18438155030022290649 \<mapsto> 7]),
      familyMapAt = (\<lambda>_. Map.empty)(3 := [''a'' \<mapsto> 6]),
      nextAddr = 8, metrics = 2, metricFamilyByName = 3\<rparr>"
  by (simp add: cacheR12_def eval_defs NewCachedTGatherer_def sample_simps)

lemma cacheR12D_eq:
  "cacheR12D =
     \<lparr>metricAt = (\<lambda>_. zeroMetric)
        (5 := \<lparr>Label = [(''x'', ''1'')], Gauge = Some 7, Counter = None, Untyped = None, TimestampMs = None\<rparr>,
         7 := \<lparr>Label = [(''x'', ''2'')], Gauge = Some 8, Counter = None, Untyped = None, TimestampMs = None\<rparr>),
      familyAt = (\<lambda>_. zeroMetricFamily)
        (4 := \<lparr>Name = Some ''a'', Help' = Some ''help'', Type = Some GAUGE, Metric = [5]\<rparr>,
         6 := \<lparr>Name = Some ''a'', Help' = Some ''help'', Type = Some GAUGE, Metric = [7]\<rparr>),
      metricMapAt = (\<lambda>_. Map.empty)(2 := [16421908215968682650 \<mapsto> 5]),
      familyMapAt = (\<lambda>_. Map.empty)(3 := Map.empty),
      nextAddr = 8, metrics = 2, metricFamilyByName = 3\<rparr>"
  by (simp add: cacheR12D_def eval_defs cacheR12_eq keyA2_fields)

lemma three_calls:
  "fst (Update Sum64 True [gaugeA1, gaugeA2] [] NewCachedTGatherer) = Returned None"
  "fst (Update Sum64 False [] [keyA2] cacheR12) = Returned None"
  "fst (Update Sum64 False [gaugeA1] [] cacheR12D) = Returned None"
  "byName (snd (Update Sum64 False [gaugeA1] [] cacheR12D)) ''a'' = Some 8"
  "members (snd (Update Sum64 False [gaugeA1] [] cacheR12D)) ''a'' = []"
  "byHash (snd (Update Sum64 False [gaugeA1] [] cacheR12D)) = [16421908215968682650 \<mapsto> 5]"
  by (simp_all add: sel_defs eval_defs NewCachedTGatherer_def cacheR12_eq cacheR12D_eq
      keyA2_fields sample_simps)

lemma keyA1Joined_fields:
  "isValid keyA1Joined = None" "LabelValues keyA1Joined = []"
  by (simp_all add: keyA1Joined_def isValid_def)

lemma hash_keyA1Joined: "hash sum64 keyA1Joined = hash sum64 gaugeA1"
  by (simp add: hash_def keyA1Joined_def gaugeA1_def)

lemma delete_joined:
  "fst (Update Sum64 False [] [keyA1Joined] cacheA1)
     = Returned (Some (MultiError [ErrNoMetricFamily (FQName keyA1Joined) []]))"
  "byHash (snd (Update Sum64 False [] [keyA1Joined] cacheA1)) = Map.empty"
  "members (snd (Update Sum64 False [] [keyA1Joined] cacheA1)) ''a'' = [3]"
  by (simp_all add: sel_defs eval_defs cacheA1_eq hash_keyA1Joined keyA1Joined_fields sample_simps)
    (simp_all add: keyA1Joined_def)

lemma aborts_samples:
  "aborts badKindB" "\<not> aborts gaugeA1" "\<not> aborts gaugeA2" "\<not> aborts counterA1"
  "\<not> aborts badKindNoName" "unsupported (ValueType badKindNoName)" "\<not> unsupported (ValueType counterA1)"
  by (simp_all add: aborts_def unsupported_def sample_simps CounterValue_def GaugeValue_def UntypedValue_def)

lemma sorted_pairs_samples: "sortedLabelPairs keyXY = sortedLabelPairs keyYX"
  by (simp add: sortedLabelPairs_def keyXY_def keyYX_def)

lemma allocated_cacheA1: "allocated cacheA1"
  by (simp add: allocated_def cacheA1_eq)

lemma cacheA1_sel:
  "byHash cacheA1 = [16421908215968682650 \<mapsto> 3]" "byName cacheA1 = [''a'' \<mapsto> 2]"
  "members cacheA1 ''a'' = [3]" "nextAddr cacheA1 = 4"
  "metricAt cacheA1 3 = \<lparr>Label = [(''x'', ''1'')], Gauge = Some 7, Counter = None, Untyped = None, TimestampMs = None\<rparr>"
  by (simp_all add: sel_defs cacheA1_eq)

lemma cacheA12_sel:
  "byHash cacheA12 = [16421908215968682650 \<mapsto> 3, 18438155030022290649 \<mapsto> 4]"
  "byName cacheA12 = [''a'' \<mapsto> 2]" "members cacheA12 ''a'' = [3, 4]"
  by (simp_all add: sel_defs cacheA12_eq)

lemma Update_nothing: "Update sum64 False [] [] c = (Returned None, c)"
  by (simp add: Update_def leave_def runLoops_def enter_def CachedTGatherer.defs MaybeUnwrap_def)

lemma leave_Continue_idx:
  "byHash (snd (leave (Continue w))) = metricMapAt w (currMetrics w)"
  "byName (snd (leave (Continue w))) = familyMapAt w (currMetricFamilies w)"
  by (simp_all add: sel_defs leave_Continue_sel)

lemma isValid_Some_fields:
  "isValid k = Some e \<Longrightarrow> FQName k = [] \<or> length (LabelNames k) \<noteq> length (LabelValues k)"
  by (auto simp: isValid_def split: if_splits)

lemma clean_run:
  "fst (Update Sum64 False [gaugeA1, gaugeA2] [] NewCachedTGatherer) = Returned None"
  "fst (Update Sum64 False [gaugeA1] [keyC] NewCachedTGatherer) = Returned None"
  by (simp_all add: eval_defs NewCachedTGatherer_def sample_simps)

lemma MaybeUnwrap_None: "MaybeUnwrap es = None \<Longrightarrow> es = []"
  by (simp add: MaybeUnwrap_def split: if_splits)

lemma Gather_cacheA1:
  "Gather cacheA1 =
     [(\<lparr>Name = Some ''a'', Help' = Some ''help'', Type = Some GAUGE, Metric = [3]\<rparr>,
       [\<lparr>Label = [(''x'', ''1'')], Gauge = Some 7, Counter = None, Untyped = None, TimestampMs = None\<rparr>])]"
  by (simp add: Gather_def NormalizeMetricFamilies_def cacheA1_eq List.map_filter_simps)

section \<open>The claims\<close>

text \<open>
  C1. The claim: after every Update, each metric stored in the by-hash index is referenced
  exactly once from the members of some family of the by-name index, and each referenced
  metric is stored in the by-hash index. The code breaks it under reset: on the new, empty
  gatherer, a reset batch of two inserts of one family with different label values returns
  no error and leaves two metrics in the by-hash index, at addresses 5 and 7, while the only
  family, \<open>a\<close>, has the single member 7. Each insert looked the family up in the old map,
  did not find it and made a new record, which replaced the one before.
\<close>

theorem reset_batch_leaves_unreferenced_metric:
  "byHash NewCachedTGatherer = Map.empty \<and> byName NewCachedTGatherer = Map.empty \<and>
   fst (Update Sum64 True [gaugeA1, gaugeA2] [] NewCachedTGatherer) = Returned None \<and>
   ran (byHash (snd (Update Sum64 True [gaugeA1, gaugeA2] [] NewCachedTGatherer))) = {5, 7} \<and>
   dom (byName (snd (Update Sum64 True [gaugeA1, gaugeA2] [] NewCachedTGatherer))) = {''a''} \<and>
   members (snd (Update Sum64 True [gaugeA1, gaugeA2] [] NewCachedTGatherer)) ''a'' = [7]"
  by (simp add: reset_on_new) (auto simp: sel_defs NewCachedTGatherer_def)

text \<open>
  C2. The claim: a batch with two valid inserts of one family name and different label sets
  leaves one family with two distinct members, under reset too. The code does so without
  reset (\<open>cacheA12\<close> is the result on the empty gatherer, with members 3 and 4), but the
  same batch under reset on \<open>cacheA12\<close> leaves the family with the single member 4: the
  reused family's slice is cut to length 0 again at the second insert.
\<close>

theorem reset_batch_keeps_one_member:
  "members cacheA12 ''a'' = [3, 4] \<and>
   fst (Update Sum64 True [gaugeA1, gaugeA2] [] cacheA12) = Returned None \<and>
   dom (byName (snd (Update Sum64 True [gaugeA1, gaugeA2] [] cacheA12))) = {''a''} \<and>
   members (snd (Update Sum64 True [gaugeA1, gaugeA2] [] cacheA12)) ''a'' = [4] \<and>
   byHash (snd (Update Sum64 True [gaugeA1, gaugeA2] [] cacheA12))
     = [16421908215968682650 \<mapsto> 3, 18438155030022290649 \<mapsto> 4]"
  by (simp add: reset_on_A12 cacheA12_sel)

text \<open>
  C3. The claim: a family entry of the by-name index always has a non-empty members list,
  also right after an Update that returned an error. The code breaks it in two ways. On
  the new gatherer, an Update without reset whose only insert has a valid key and the
  value type 99 returns the error of the unsupported value type and leaves the family
  \<open>b\<close> registered with no member: the family is stored in line 153, the return is in
  line 198. And without any error: after the reset batch of two inserts of the family
  \<open>a\<close> and the deletion of the second key, which removes the family and leaves the
  first metric in the by-hash index, inserting the first key again registers a new family
  \<open>a\<close> and, the hash being found, appends nothing to it.
\<close>

theorem empty_family_left_behind:
  "fst (Update Sum64 False [badKindB] [] NewCachedTGatherer)
     = Returned (Some (ErrUnsupportedValueType 99)) \<and>
   byName (snd (Update Sum64 False [badKindB] [] NewCachedTGatherer)) ''b'' = Some 2 \<and>
   members (snd (Update Sum64 False [badKindB] [] NewCachedTGatherer)) ''b'' = [] \<and>
   cacheR12 = snd (Update Sum64 True [gaugeA1, gaugeA2] [] NewCachedTGatherer) \<and>
   fst (Update Sum64 True [gaugeA1, gaugeA2] [] NewCachedTGatherer) = Returned None \<and>
   cacheR12D = snd (Update Sum64 False [] [keyA2] cacheR12) \<and>
   fst (Update Sum64 False [] [keyA2] cacheR12) = Returned None \<and>
   fst (Update Sum64 False [gaugeA1] [] cacheR12D) = Returned None \<and>
   byName (snd (Update Sum64 False [gaugeA1] [] cacheR12D)) ''a'' = Some 8 \<and>
   members (snd (Update Sum64 False [gaugeA1] [] cacheR12D)) ''a'' = []"
proof -
  have b: "byName (snd (Update Sum64 False [badKindB] [] NewCachedTGatherer)) ''b'' = Some 2"
    by (simp add: abort_on_new)
  show ?thesis
    by (intro conjI) (rule b abort_on_new three_calls cacheR12_def cacheR12D_def)+
qed

text \<open>
  C4, the claim as stated: if any insert of the batch has a value type other than Counter,
  Gauge and Untyped, Update returns at once with only that error and applies nothing after
  it. It fails for an insert whose key is invalid as well: the insert with the empty name
  and the value type 99 is skipped with the soft error of the empty name, the insert after
  it is applied, and the aggregate of the soft errors is returned.
\<close>

theorem invalid_key_hides_unsupported_kind:
  "unsupported (ValueType badKindNoName) \<and>
   fst (Update Sum64 False [badKindNoName, gaugeA1] [] NewCachedTGatherer)
     = Returned (Some (MultiError [ErrFQNameEmpty])) \<and>
   fst (Update Sum64 False [badKindNoName, gaugeA1] [] NewCachedTGatherer)
     \<noteq> Returned (Some (ErrUnsupportedValueType (ValueType badKindNoName))) \<and>
   byHash (snd (Update Sum64 False [badKindNoName, gaugeA1] [] NewCachedTGatherer))
     = [16421908215968682650 \<mapsto> 3] \<and>
   members (snd (Update Sum64 False [badKindNoName, gaugeA1] [] NewCachedTGatherer)) ''a'' = [3]"
  by (simp add: noname_on_new aborts_samples)

text \<open>
  C4, amended: if an insert with a valid key has a value type other than Counter, Gauge and
  Untyped, and no insert before it is of this sort, then Update returns with exactly the
  error of the unsupported value type of that insert, whatever soft errors were recorded
  before, and the call is the same as the call with nothing after that insert: no later
  insert and no deletion is applied.
\<close>

theorem Update_aborts_on_unsupported:
  assumes "aborts bad" and "\<forall>i \<in> set pre. \<not> aborts i"
  shows "Update sum64 reset (pre @ bad # post) deletions c = Update sum64 reset (pre @ [bad]) [] c \<and>
         fst (Update sum64 reset (pre @ bad # post) deletions c)
           = Returned (Some (ErrUnsupportedValueType (ValueType bad)))"
proof -
  obtain w1 where pre: "insertLoop sum64 reset pre (enter reset c) = Continue w1"
    using insertLoop_continues [OF assms(2)] by blast
  obtain w2 where bad: "insertOne sum64 reset bad w1 = Return (ErrUnsupportedValueType (ValueType bad)) w2"
    using insertOne_aborts [OF assms(1)] by blast
  have "insertLoop sum64 reset (pre @ bad # post) (enter reset c) = Return (ErrUnsupportedValueType (ValueType bad)) w2"
    "insertLoop sum64 reset (pre @ [bad]) (enter reset c) = Return (ErrUnsupportedValueType (ValueType bad)) w2"
    by (simp_all add: insertLoop_append pre bad)
  then show ?thesis
    by (simp add: Update_def leave_def runLoops_def)
qed

theorem Update_aborts_on_unsupported_witness:
  "aborts badKindB \<and> \<not> aborts badKindNoName \<and> \<not> aborts gaugeA1 \<and>
   Update Sum64 False ([badKindNoName, gaugeA1] @ badKindB # [gaugeA2]) [keyC] NewCachedTGatherer
     = Update Sum64 False ([badKindNoName, gaugeA1] @ [badKindB]) [] NewCachedTGatherer \<and>
   fst (Update Sum64 False ([badKindNoName, gaugeA1] @ badKindB # [gaugeA2]) [keyC] NewCachedTGatherer)
     = Returned (Some (ErrUnsupportedValueType (ValueType badKindB)))"
proof -
  have a: "aborts badKindB" and b: "\<forall>i \<in> set [badKindNoName, gaugeA1]. \<not> aborts i"
    by (simp_all add: aborts_samples)
  have n: "\<not> aborts badKindNoName" "\<not> aborts gaugeA1"
    by (simp_all add: aborts_samples)
  show ?thesis
    using a n Update_aborts_on_unsupported [OF a b, of Sum64 False "[gaugeA2]" "[keyC]" NewCachedTGatherer]
    by blast
qed

text \<open>
  C5. \<open>hash\<close> depends on the name and the two label sequences of the key only, in the
  order supplied: keys with equal values in these three fields have equal hashes,
  whatever the digest and whatever else the records hold. The order matters: there are two valid keys with the same name
  and the same set of label pairs, in different orders, whose hashes under XXH64 differ,
  although the sorted label pairs stored for them are the same.
\<close>

theorem hash_order_sensitive:
  "(FQName k = FQName k' \<and> LabelNames k = LabelNames k' \<and> LabelValues k = LabelValues k'
      \<longrightarrow> hash sum64 k = hash sum64 k') \<and>
   (\<exists>(a :: Key) (b :: Key).
      FQName a = FQName b \<and> isValid a = None \<and> isValid b = None \<and>
      set (zip (LabelNames a) (LabelValues a)) = set (zip (LabelNames b) (LabelValues b)) \<and>
      sortedLabelPairs a = sortedLabelPairs b \<and>
      hash Sum64 a \<noteq> hash Sum64 b)"
proof
  show "FQName k = FQName k' \<and> LabelNames k = LabelNames k' \<and> LabelValues k = LabelValues k'
      \<longrightarrow> hash sum64 k = hash sum64 k'"
    by (simp add: hash_def)
  have "FQName keyXY = FQName keyYX" "isValid keyXY = None" "isValid keyYX = None"
    "set (zip (LabelNames keyXY) (LabelValues keyXY)) = set (zip (LabelNames keyYX) (LabelValues keyYX))"
    by (auto simp: keyXY_def keyYX_def isValid_def)
  moreover have "hash Sum64 keyXY \<noteq> hash Sum64 keyYX"
    by (simp add: hash_samples)
  ultimately have both:
    "FQName keyXY = FQName keyYX \<and> isValid keyXY = None \<and> isValid keyYX = None \<and>
     set (zip (LabelNames keyXY) (LabelValues keyXY)) = set (zip (LabelNames keyYX) (LabelValues keyYX)) \<and>
     sortedLabelPairs keyXY = sortedLabelPairs keyYX \<and>
     hash Sum64 keyXY \<noteq> hash Sum64 keyYX"
    using sorted_pairs_samples by simp
  show "\<exists>(a :: Key) (b :: Key).
      FQName a = FQName b \<and> isValid a = None \<and> isValid b = None \<and>
      set (zip (LabelNames a) (LabelValues a)) = set (zip (LabelNames b) (LabelValues b)) \<and>
      sortedLabelPairs a = sortedLabelPairs b \<and>
      hash Sum64 a \<noteq> hash Sum64 b"
    by (rule exI [of _ keyXY], rule exI [of _ keyYX], rule both)
qed

theorem hash_order_sensitive_witness:
  "FQName gaugeA1 = FQName counterA1 \<and> LabelNames gaugeA1 = LabelNames counterA1 \<and>
   LabelValues gaugeA1 = LabelValues counterA1 \<and> Help gaugeA1 \<noteq> Help counterA1 \<and>
   hash Sum64 gaugeA1 = hash Sum64 counterA1"
proof -
  have a: "FQName gaugeA1 = FQName counterA1 \<and> LabelNames gaugeA1 = LabelNames counterA1 \<and>
   LabelValues gaugeA1 = LabelValues counterA1" and b: "Help gaugeA1 \<noteq> Help counterA1"
    by (simp_all add: gaugeA1_def counterA1_def)
  from hash_order_sensitive [of gaugeA1 counterA1 Sum64] a b show ?thesis
    by blast
qed



text \<open>
  C7. An insert or a deletion whose key fails validation, which it does only for an empty
  name or for label names and label values of different lengths, is skipped: the gatherer
  and the memory after the call are those of the call without it. When no insert aborts
  the call, the errors returned without it are an aggregate of soft errors in two parts,
  and with it the returned error is the aggregate with its validation error between the
  two parts, so the items after it are processed as before. The aggregate of no error
  is nil.
\<close>

theorem Update_skips_invalid_keys:
  assumes "isValid (bad :: Insert) = Some e" and "isValid (badk :: Key) = Some e'"
  shows "(FQName bad = [] \<or> length (LabelNames bad) \<noteq> length (LabelValues bad)) \<and>
         (FQName badk = [] \<or> length (LabelNames badk) \<noteq> length (LabelValues badk)) \<and>
         snd (Update sum64 reset (pre @ bad # post) ds c) = snd (Update sum64 reset (pre @ post) ds c) \<and>
         snd (Update sum64 reset xs (dpre @ badk # dpost) c) = snd (Update sum64 reset xs (dpre @ dpost) c) \<and>
         ((\<forall>i \<in> set (pre @ post). \<not> aborts i) \<longrightarrow>
            (\<exists>E1 E2. fst (Update sum64 reset (pre @ post) ds c) = Returned (MaybeUnwrap (E1 @ E2)) \<and>
               fst (Update sum64 reset (pre @ bad # post) ds c) = Returned (Some (MultiError (E1 @ e # E2))))) \<and>
         ((\<forall>i \<in> set xs. \<not> aborts i) \<longrightarrow>
            (\<exists>E1 E2. fst (Update sum64 reset xs (dpre @ dpost) c) = Returned (MaybeUnwrap (E1 @ E2)) \<and>
               fst (Update sum64 reset xs (dpre @ badk # dpost) c) = Returned (Some (MultiError (E1 @ e' # E2))))) \<and>
         MaybeUnwrap [] = None"
  using isValid_Some_fields [OF assms(1)] isValid_Some_fields [OF assms(2)]
    skip_insert_state [OF assms(1), of sum64 reset pre post ds c]
    skip_delete_state [OF assms(2), of sum64 reset xs dpre dpost c]
    skip_insert_errors [OF assms(1), of pre post sum64 reset ds c]
    skip_delete_errors [OF assms(2), of xs sum64 reset dpre dpost c]
  by (simp add: MaybeUnwrap_def)

theorem Update_skips_invalid_keys_witness:
  "isValid badKindNoName = Some ErrFQNameEmpty \<and> isValid keyShort = Some ErrLabelLength \<and>
   \<not> aborts gaugeA1 \<and> \<not> aborts gaugeA2 \<and>
   snd (Update Sum64 False ([gaugeA1] @ badKindNoName # [gaugeA2]) [] NewCachedTGatherer)
     = snd (Update Sum64 False ([gaugeA1] @ [gaugeA2]) [] NewCachedTGatherer) \<and>
   snd (Update Sum64 False [gaugeA1] ([keyC] @ keyShort # []) NewCachedTGatherer)
     = snd (Update Sum64 False [gaugeA1] ([keyC] @ []) NewCachedTGatherer) \<and>
   fst (Update Sum64 False ([gaugeA1] @ [gaugeA2]) [] NewCachedTGatherer) = Returned None \<and>
   fst (Update Sum64 False ([gaugeA1] @ badKindNoName # [gaugeA2]) [] NewCachedTGatherer)
     = Returned (Some (MultiError [ErrFQNameEmpty])) \<and>
   fst (Update Sum64 False [gaugeA1] ([keyC] @ []) NewCachedTGatherer) = Returned None \<and>
   fst (Update Sum64 False [gaugeA1] ([keyC] @ keyShort # []) NewCachedTGatherer)
     = Returned (Some (MultiError [ErrLabelLength]))"
proof -
  have a: "isValid badKindNoName = Some ErrFQNameEmpty" and b: "isValid keyShort = Some ErrLabelLength"
    and p: "\<forall>i \<in> set ([gaugeA1] @ [gaugeA2]). \<not> aborts i" and q: "\<forall>i \<in> set [gaugeA1]. \<not> aborts i"
    by (simp_all add: sample_simps aborts_samples)
  note t = Update_skips_invalid_keys [OF a b, of Sum64 False "[gaugeA1]" "[gaugeA2]" "[]"
      NewCachedTGatherer "[gaugeA1]" "[keyC]" "[]"]
  from t p obtain E1 E2 where
    "fst (Update Sum64 False ([gaugeA1] @ [gaugeA2]) [] NewCachedTGatherer) = Returned (MaybeUnwrap (E1 @ E2))"
    "fst (Update Sum64 False ([gaugeA1] @ badKindNoName # [gaugeA2]) [] NewCachedTGatherer)
       = Returned (Some (MultiError (E1 @ ErrFQNameEmpty # E2)))"
    by blast
  with clean_run(1) have i: "fst (Update Sum64 False ([gaugeA1] @ badKindNoName # [gaugeA2]) [] NewCachedTGatherer)
     = Returned (Some (MultiError [ErrFQNameEmpty]))"
    using MaybeUnwrap_None [of "E1 @ E2"] by simp
  from t q obtain D1 D2 where
    "fst (Update Sum64 False [gaugeA1] ([keyC] @ []) NewCachedTGatherer) = Returned (MaybeUnwrap (D1 @ D2))"
    "fst (Update Sum64 False [gaugeA1] ([keyC] @ keyShort # []) NewCachedTGatherer)
       = Returned (Some (MultiError (D1 @ ErrLabelLength # D2)))"
    by blast
  with clean_run(2) have d: "fst (Update Sum64 False [gaugeA1] ([keyC] @ keyShort # []) NewCachedTGatherer)
     = Returned (Some (MultiError [ErrLabelLength]))"
    using MaybeUnwrap_None [of "D1 @ D2"] by simp
  from t a b p q i d clean_run show ?thesis
    by simp
qed

text \<open>
  C8, the claim as stated: a deletion with a valid key whose hash is not in the working
  by-hash index is a no-op, so deleting a key that was never inserted returns nil and
  leaves the cache unchanged. The conclusion fails: a key that was never inserted can have
  the hash of one that was. The gatherer \<open>cacheA1\<close> holds the one series of the name
  \<open>a\<close> with the label \<open>x\<close> = \<open>1\<close>. The valid key \<open>keyA1Joined\<close> has another
  name and no labels, and \<open>hash\<close> writes the same bytes for it, whatever the digest.
  Deleting it finds the hash, removes the other series from the by-hash index, does not
  find a family of its own name and returns that error; the family \<open>a\<close> keeps its
  member.
\<close>

theorem never_inserted_key_deletes_other_series:
  "cacheA1 = snd (Update Sum64 False [gaugeA1] [] NewCachedTGatherer) \<and>
   isValid keyA1Joined = None \<and> FQName keyA1Joined \<noteq> FQName gaugeA1 \<and>
   hash Sum64 keyA1Joined = hash Sum64 gaugeA1 \<and>
   byHash cacheA1 = [16421908215968682650 \<mapsto> 3] \<and>
   fst (Update Sum64 False [] [keyA1Joined] cacheA1)
     = Returned (Some (MultiError [ErrNoMetricFamily (FQName keyA1Joined) []])) \<and>
   fst (Update Sum64 False [] [keyA1Joined] cacheA1) \<noteq> Returned None \<and>
   byHash (snd (Update Sum64 False [] [keyA1Joined] cacheA1)) = Map.empty \<and>
   members (snd (Update Sum64 False [] [keyA1Joined] cacheA1)) ''a'' = [3] \<and>
   snd (Update Sum64 False [] [keyA1Joined] cacheA1) \<noteq> cacheA1"
proof -
  have n: "FQName keyA1Joined \<noteq> FQName gaugeA1"
    by (simp add: keyA1Joined_def gaugeA1_def)
  have d: "snd (Update Sum64 False [] [keyA1Joined] cacheA1) \<noteq> cacheA1"
  proof
    assume "snd (Update Sum64 False [] [keyA1Joined] cacheA1) = cacheA1"
    then have "byHash (snd (Update Sum64 False [] [keyA1Joined] cacheA1)) 16421908215968682650
        = byHash cacheA1 16421908215968682650"
      by simp
    then show False
      by (simp add: delete_joined cacheA1_sel)
  qed
  have e: "fst (Update Sum64 False [] [keyA1Joined] cacheA1) \<noteq> Returned None"
    by (simp add: delete_joined)
  show ?thesis
    by (intro conjI)
      (rule cacheA1_def keyA1Joined_fields n hash_keyA1Joined cacheA1_sel delete_joined e d)+
qed

text \<open>
  C8, amended: a deletion with a valid key whose hash is not in the working by-hash index
  when its turn comes (the index as the call without it and without the deletions after
  it leaves it) is a no-op: the call returns the same error and leaves the same gatherer
  and memory as the call without this deletion. In particular, deleting from a gatherer a
  key whose hash is not in its by-hash index returns nil and leaves the gatherer as it
  was. Whether the key itself was ever inserted is not what the code asks.
\<close>

theorem Update_delete_absent:
  assumes c1: "c1 = snd (Update sum64 reset xs dpre c)"
    and valid: "isValid del = None"
    and h: "hash sum64 del = Some h"
    and absent: "byHash c1 h = None"
  shows "Update sum64 reset xs (dpre @ del # dpost) c = Update sum64 reset xs (dpre @ dpost) c \<and>
         (byHash c h = None \<longrightarrow> Update sum64 False [] [del] c = (Returned None, c))"
proof -
  have a: "Update sum64 reset xs (dpre @ del # dpost) c = Update sum64 reset xs (dpre @ dpost) c"
  proof (cases "insertLoop sum64 reset xs (enter reset c)")
    case (Continue w1)
    obtain w2 where w2: "deleteLoop sum64 dpre w1 = Continue w2"
      using deleteLoop_Continue by blast
    have "metricMapAt w2 (currMetrics w2) h = None"
      using absent by (simp add: c1 Update_leave runLoops_def Continue w2 leave_Continue_idx)
    then have "deleteOne sum64 del w2 = Continue w2"
      using deleteOne_absent [OF valid h] by simp
    then show ?thesis
      by (simp add: Update_leave runLoops_def Continue deleteLoop_append w2)
  next
    case (Return e w1)
    then show ?thesis by (simp add: Update_leave runLoops_def)
  next
    case (Panic w1)
    then show ?thesis by (simp add: Update_leave runLoops_def)
  qed
  have b: "byHash c h = None \<longrightarrow> Update sum64 False [] [del] c = (Returned None, c)"
  proof
    assume "byHash c h = None"
    then have "deleteOne sum64 del (enter False c) = Continue (enter False c)"
      using deleteOne_absent [OF valid h, of "enter False c"]
      by (simp add: byHash_def enter_def CachedTGatherer.defs)
    then show "Update sum64 False [] [del] c = (Returned None, c)"
      by (simp add: Update_leave runLoops_def leave_def enter_def CachedTGatherer.defs MaybeUnwrap_def)
  qed
  from a b show ?thesis ..
qed

theorem Update_delete_absent_witness:
  "isValid keyC = None \<and> hash Sum64 keyC = Some 6160836390864297911 \<and>
   byHash (snd (Update Sum64 False [] [] cacheA1)) 6160836390864297911 = None \<and>
   byHash cacheA1 6160836390864297911 = None \<and> byHash cacheA1 \<noteq> Map.empty \<and>
   Update Sum64 False [] ([] @ keyC # [keyShort]) cacheA1 = Update Sum64 False [] ([] @ [keyShort]) cacheA1 \<and>
   Update Sum64 False [] [keyC] cacheA1 = (Returned None, cacheA1)"
proof -
  have v: "isValid keyC = None" and h: "hash Sum64 keyC = Some 6160836390864297911"
    by (simp_all add: sample_simps)
  have n: "byHash cacheA1 6160836390864297911 = None" and ne: "byHash cacheA1 \<noteq> Map.empty"
    by (simp_all add: cacheA1_sel)
  have a: "byHash (snd (Update Sum64 False [] [] cacheA1)) 6160836390864297911 = None"
    using n by (simp add: Update_nothing)
  from Update_delete_absent [OF refl v h a, of "[keyShort]"] v h a n ne show ?thesis
    by simp
qed

text \<open>
  C9. Update with reset, no insert and no deletion returns nil and leaves both indexes of
  the gatherer empty, whatever it held before; Gather after it yields no family, so no
  metric.
\<close>

theorem Update_reset_empty:
  "fst (Update sum64 True [] [] c) = Returned None \<and>
   byHash (snd (Update sum64 True [] [] c)) = Map.empty \<and>
   byName (snd (Update sum64 True [] [] c)) = Map.empty \<and>
   Gather (snd (Update sum64 True [] [] c)) = []"
  by (simp add: Update_leave runLoops_def leave_def enter_def CachedTGatherer.defs MaybeUnwrap_def
      mem_defs Gather_def NormalizeMetricFamilies_def List.map_filter_simps sel_defs)

theorem Update_reset_empty_witness:
  "Gather cacheA1 \<noteq> [] \<and> byHash cacheA1 \<noteq> Map.empty \<and> byName cacheA1 \<noteq> Map.empty \<and>
   fst (Update Sum64 True [] [] cacheA1) = Returned None \<and>
   byHash (snd (Update Sum64 True [] [] cacheA1)) = Map.empty \<and>
   byName (snd (Update Sum64 True [] [] cacheA1)) = Map.empty \<and>
   Gather (snd (Update Sum64 True [] [] cacheA1)) = []"
  using Update_reset_empty [of Sum64 cacheA1] by (simp add: Gather_cacheA1 cacheA1_sel)

text \<open>
  C10. When Update with reset returns the error of an unsupported value type, the two
  fields of the gatherer point to the map objects they pointed to before, and these hold
  the entries they held before: the working maps were two new objects, which the call
  never assigned to the fields. The gatherer's maps are supposed allocated, as are those
  of every gatherer made by \<open>NewCachedTGatherer\<close> and updated since.
\<close>

theorem Update_reset_abort_keeps_live_maps:
  assumes "allocated c"
    and "fst (Update sum64 True inserts deletions c) = Returned (Some (ErrUnsupportedValueType t))"
  shows "metrics (snd (Update sum64 True inserts deletions c)) = metrics c \<and>
         metricFamilyByName (snd (Update sum64 True inserts deletions c)) = metricFamilyByName c \<and>
         byHash (snd (Update sum64 True inserts deletions c)) = byHash c \<and>
         byName (snd (Update sum64 True inserts deletions c)) = byName c"
proof -
  let ?w0 = "enter True c"
  note e = enter_reset [OF assms(1)]
  from e have sep: "currMetrics ?w0 \<noteq> metrics ?w0" "currMetricFamilies ?w0 \<noteq> metricFamilyByName ?w0"
    by simp_all
  note l = insertLoop_live_maps [OF sep, of sum64 True inserts]
  show ?thesis
  proof (cases "insertLoop sum64 True inserts ?w0")
    case (Continue w)
    with assms(2) show ?thesis
      by (auto simp: Update_def leave_def runLoops_def MaybeUnwrap_def deleteLoop_no_Return
          split: step.splits if_splits)
  next
    case (Return err w)
    with l e show ?thesis
      by (simp add: Update_def leave_def runLoops_def CachedTGatherer.defs sel_defs)
  next
    case (Panic w)
    with assms(2) show ?thesis
      by (simp add: Update_def leave_def runLoops_def)
  qed
qed

theorem Update_reset_abort_keeps_live_maps_witness:
  "allocated cacheA1 \<and>
   fst (Update Sum64 True [gaugeA2, badKindB] [] cacheA1) = Returned (Some (ErrUnsupportedValueType 99)) \<and>
   byHash (snd (Update Sum64 True [gaugeA2, badKindB] [] cacheA1)) = [16421908215968682650 \<mapsto> 3] \<and>
   byName (snd (Update Sum64 True [gaugeA2, badKindB] [] cacheA1)) = [''a'' \<mapsto> 2] \<and>
   members cacheA1 ''a'' = [3] \<and>
   members (snd (Update Sum64 True [gaugeA2, badKindB] [] cacheA1)) ''a'' = [6]"
  using Update_reset_abort_keeps_live_maps [OF allocated_cacheA1 abort_reset_on_A1(1)]
    allocated_cacheA1 abort_reset_on_A1 cacheA1_sel
  by simp

end
